theory Spec2Isabelle
  imports Main
begin

section \<open>Cross-datacenter history replication: the data model\<close>

text \<open>
  The development embeds the history replicator of \<^verbatim>\<open>service/history\<close> (the second
  \<^verbatim>\<open>package history\<close> unit of \<^verbatim>\<open>service/history/service.go\<close>) together with the
  part of \<^verbatim>\<open>NewConfig\<close> and of the dynamic-config key table that it reads.

  Conventions.
  \<^item> Go \<^verbatim>\<open>int64\<close>/\<^verbatim>\<open>int32\<close> values are \<^typ>\<open>int\<close>; the few additions and negations of the
    source are wrapped with \<open>wrap64\<close>. A \<^verbatim>\<open>time.Time\<close> is its Unix time in nanoseconds.
  \<^item> A thrift struct is a record of the values its getters return (a getter of a nil
    field returns the zero value), except where the source reads a pointer field
    directly: such a field is an \<^typ>\<open>'a option\<close> and reading through \<open>None\<close> is a panic.
  \<^item> A Go \<^verbatim>\<open>error\<close> result is an \<open>error option\<close> (\<open>None\<close> is \<^verbatim>\<open>nil\<close>); a
    \<^verbatim>\<open>(value, error)\<close> result is \<open>error + value\<close>.
  \<^item> A Go map is an association list: \<open>map_of\<close> is the lookup and the list order stands
    for the (unspecified) iteration order of \<^verbatim>\<open>range\<close>.
  \<^item> The collaborators whose code is not part of the sources (cluster metadata, shard,
    execution cache, execution context, state builder, conflict resolver, metrics, the
    mutators of mutable state) are fields of the record \<open>historyReplicator\<close>, as they are
    fields of the Go struct. Everything outside the mutable state under the lock is
    one value of an arbitrary type \<open>'w\<close> ("the world"), which those operations
    transform; the in-memory mutable state is passed explicitly and returned updated.
  \<^item> Logging has no effect on control flow and is left out.
  \<^item> Recursion through \<open>ApplyReplicationTask\<close> and the flush loop is bounded by a fuel
    argument; \<open>None\<close> means that the fuel ran out.
\<close>

subsection \<open>Integers, durations, errors\<close>

definition wrap64 :: "int \<Rightarrow> int" where
  "wrap64 x = (x + 2 ^ 63) mod 2 ^ 64 - 2 ^ 63"

definition Minute :: int where
  "Minute = 60 * 1000000000"

definition Hour :: int where
  "Hour = 60 * Minute"

text \<open>\<^verbatim>\<open>time.Time{}\<close>, the zero time (January 1, year 1), in Unix nanoseconds.\<close>

definition zeroTime :: int where
  "zeroTime = - 62135596800 * 1000000000"

datatype WorkflowState = WorkflowStateCreated | WorkflowStateRunning | WorkflowStateCompleted

datatype CloseStatus = WorkflowCloseStatusNone | WorkflowCloseStatusClosed nat

text \<open>
  The error values the replicator creates or inspects. \<open>RetryTaskError\<close> carries
  message, domain id, workflow id, run id and next event id;
  \<open>WorkflowExecutionAlreadyStartedError\<close> is the error of package \<^verbatim>\<open>persistence\<close> with the
  run id, the state and the last write version of the current run, and
  \<open>SharedWorkflowExecutionAlreadyStartedError\<close> the error of the same name of package
  \<^verbatim>\<open>shared\<close>, with its message. \<open>OtherError\<close> is any further error of a collaborator,
  \<open>Panic\<close> a Go run-time panic.
\<close>

datatype error =
    RetryTaskError string string string string int
  | BadRequestError string
  | InternalServiceError string
  | InternalFailureError string
  | EntityNotExistsError string
  | WorkflowExecutionAlreadyStartedError string WorkflowState int
  | SharedWorkflowExecutionAlreadyStartedError string
  | OtherError string
  | Panic string

definition ErrRetrySyncActivityMsg :: string where
  "ErrRetrySyncActivityMsg = ''retry on applying sync activity''"

definition ErrRetryBufferEventsMsg :: string where
  "ErrRetryBufferEventsMsg = ''retry on applying buffer events''"

definition ErrWorkflowNotFoundMsg :: string where
  "ErrWorkflowNotFoundMsg = ''retry on workflow not found''"

definition ErrRetryExistingWorkflowMsg :: string where
  "ErrRetryExistingWorkflowMsg = ''workflow with same version is running''"

definition ErrCorruptedReplicationInfo :: error where
  "ErrCorruptedReplicationInfo =
     BadRequestError ''replication task is has corrupted cluster replication info''"

definition ErrCorruptedMutableStateDecision :: error where
  "ErrCorruptedMutableStateDecision = BadRequestError ''mutable state decision is corrupted''"

definition ErrMoreThan2DC :: error where
  "ErrMoreThan2DC = BadRequestError ''more than 2 data center''"

definition ErrImpossibleLocalRemoteMissingReplicationInfo :: error where
  "ErrImpossibleLocalRemoteMissingReplicationInfo =
     BadRequestError ''local and remote both are missing replication info''"

definition ErrImpossibleRemoteClaimSeenHigherVersion :: error where
  "ErrImpossibleRemoteClaimSeenHigherVersion =
     BadRequestError ''replication info contains higher version then this cluster ever emitted''"

definition ErrEmptyHistoryRawEventBatch :: error where
  "ErrEmptyHistoryRawEventBatch = BadRequestError ''encounter empty history batch''"

definition ErrUnknownEncodingType :: error where
  "ErrUnknownEncodingType = BadRequestError ''unknown encoding type''"

text \<open>
  The retry errors are built with a message only; their other fields are nil and read
  through the getters as the empty string and zero.
\<close>

definition ErrRetryEntityNotExists :: error where
  "ErrRetryEntityNotExists = RetryTaskError ''entity not exists'' [] [] [] 0"

definition ErrRetryExecutionAlreadyStarted :: error where
  "ErrRetryExecutionAlreadyStarted =
     RetryTaskError ''another workflow execution is running'' [] [] [] 0"

definition ErrInternalFailure :: error where
  "ErrInternalFailure = BadRequestError ''fail to apply history events due bug''"

definition workflowTerminationReason :: string where
  "workflowTerminationReason = ''Terminate Workflow Due To Version Conflict.''"

definition workflowTerminationIdentity :: string where
  "workflowTerminationIdentity = ''worker-service''"

definition newRetryTaskErrorWithHint :: "string \<Rightarrow> string \<Rightarrow> string \<Rightarrow> string \<Rightarrow> int \<Rightarrow> error" where
  "newRetryTaskErrorWithHint msg domainID workflowID runID nextEventID =
     RetryTaskError msg domainID workflowID runID nextEventID"

text \<open>\<^verbatim>\<open>_, ok := err.(*shared.EntityNotExistsError)\<close>\<close>

fun isEntityNotExistsError :: "error \<Rightarrow> bool" where
  "isEntityNotExistsError (EntityNotExistsError m) = True"
| "isEntityNotExistsError e = False"

subsection \<open>Events, requests and mutable state\<close>

datatype EventType =
    EventTypeWorkflowExecutionStarted
  | EventTypeWorkflowExecutionSignaled
  | EventTypeWorkflowExecutionTerminated
  | EventTypeOther nat

datatype EncodingType = EncodingTypeThriftRW | EncodingTypeOther nat

datatype DecisionTaskFailedCause =
    DecisionTaskFailedCauseFailoverCloseDecision
  | DecisionTaskFailedCauseOther nat

record SignaledAttributes =
  SignalName :: string
  Input :: string
  Identity :: string

record TerminatedAttributes =
  term_Reason :: string
  term_Identity :: string
  term_Details :: "string option"

record HistoryEvent =
  ev_EventId :: int
  ev_Timestamp :: int
  ev_Version :: int
  ev_EventType :: EventType
  WorkflowExecutionSignaledEventAttributes :: "SignaledAttributes option"
  WorkflowExecutionTerminatedEventAttributes :: "TerminatedAttributes option"

record DataBlob =
  blob_EncodingType :: EncodingType
  blob_Data :: string

record ReplicationInfo =
  ri_Version :: int
  ri_LastEventId :: int

record WorkflowExecution =
  WorkflowId :: string
  RunId :: string

record ReplicateEventsRequest =
  SourceCluster :: string
  DomainUUID :: "string option"
  req_WorkflowExecution :: WorkflowExecution
  FirstEventId :: int
  NextEventId :: int
  req_Version :: int
  req_ReplicationInfo :: "(string \<times> ReplicationInfo) list"
  History :: "HistoryEvent list"
  NewRunHistory :: "HistoryEvent list option"
  EventStoreVersion :: int
  NewRunEventStoreVersion :: int
  ForceBufferEvents :: bool
  ResetWorkflow :: bool

text \<open>The request of \<^verbatim>\<open>ApplyRawEvents\<close>: its events are still encoded.\<close>

record ReplicateRawEventsRequest =
  raw_DomainUUID :: "string option"
  raw_WorkflowExecution :: WorkflowExecution
  raw_ReplicationInfo :: "(string \<times> ReplicationInfo) list"
  raw_History :: DataBlob
  raw_NewRunHistory :: "DataBlob option"
  raw_EventStoreVersion :: int
  raw_NewRunEventStoreVersion :: int

record SyncActivityRequest =
  sa_DomainId :: string
  sa_WorkflowId :: string
  sa_RunId :: string
  sa_Version :: int
  sa_ScheduledId :: int
  sa_ScheduledTime :: int
  sa_StartedTime :: int
  sa_LastHeartbeatTime :: int
  sa_Attempt :: int

record ActivityInfo =
  ai_Version :: int
  ai_Attempt :: int
  ai_LastHeartBeatUpdatedTime :: int
  ai_TimerTaskStatus :: int

record decisionInfo =
  di_Version :: int
  di_ScheduleID :: int
  di_StartedID :: int
  di_DecisionTimeout :: int

record BufferedReplicationTask =
  bt_FirstEventID :: int
  bt_NextEventID :: int
  bt_Version :: int
  bt_History :: "HistoryEvent list"
  bt_NewRunHistory :: "HistoryEvent list"
  bt_EventStoreVersion :: int
  bt_NewRunEventStoreVersion :: int

record ReplicationState =
  CurrentVersion :: int
  StartVersion :: int
  LastWriteVersion :: int
  LastWriteEventID :: int
  LastReplicationInfo :: "(string \<times> ReplicationInfo) list"

record WorkflowExecutionInfo =
  DomainID :: string
  WorkflowID :: string
  RunID :: string
  ParentDomainID :: string
  ParentWorkflowID :: string
  ParentRunID :: string
  InitiatedID :: int
  CreateRequestID :: string
  TaskList :: string
  WorkflowTypeName :: string
  WorkflowTimeout :: int
  DecisionTimeoutValue :: int

text \<open>
  The \<^verbatim>\<open>mutableState\<close> interface, as the values of the getters the replicator calls.
  Its mutators are operations of the replicator record below.
\<close>

record mutableState =
  IsWorkflowExecutionRunning :: bool
  GetNextEventID :: int
  GetLastWriteVersion :: int
  GetCurrentVersion :: int
  GetReplicationState :: ReplicationState
  HasBufferedEvents :: bool
  HasBufferedReplicationTasks :: bool
  GetAllBufferedReplicationTasks :: "(int \<times> BufferedReplicationTask) list"
  GetInFlightDecisionTask :: "decisionInfo option"
  GetActivityInfo :: "int \<Rightarrow> ActivityInfo option"
  GetExecutionInfo :: WorkflowExecutionInfo
  GetEventStoreVersion :: int
  GetCurrentBranch :: string

record workflowExecutionContext =
  getDomainID :: string
  getExecution :: WorkflowExecution

subsection \<open>Dynamic configuration and the service configuration\<close>

text \<open>
  The keys of \<^verbatim>\<open>common/service/dynamicconfig/constants.go\<close> that the modelled part of
  \<^verbatim>\<open>NewConfig\<close> uses (the table has one entry of the same shape for every other key).
\<close>

datatype Key =
    unknownKey
  | Key_EnableDCMigration
  | Key_HistoryCacheTTL
  | Key_EventsCacheTTL
  | Key_AcquireShardInterval
  | Key_StandbyClusterDelay
  | Key_unlisted nat

text \<open>The map \<^verbatim>\<open>keys\<close> from a key to its name in the dynamic-config source.\<close>

fun keys :: "Key \<Rightarrow> string option" where
  "keys unknownKey = Some ''unknownKey''"
| "keys Key_EnableDCMigration = Some ''history.enableDCMigration''"
| "keys Key_HistoryCacheTTL = Some ''history.cacheTTL''"
| "keys Key_EventsCacheTTL = Some ''history.eventsCacheTTL''"
| "keys Key_AcquireShardInterval = Some ''history.acquireShardInterval''"
| "keys Key_StandbyClusterDelay = Some ''history.standbyClusterDelay''"
| "keys (Key_unlisted n) = None"

text \<open>\<^verbatim>\<open>func (k Key) String() string\<close>\<close>

definition Key_String :: "Key \<Rightarrow> string" where
  "Key_String k =
     (case keys k of
        None \<Rightarrow> (case keys unknownKey of None \<Rightarrow> [] | Some keyName \<Rightarrow> keyName)
      | Some keyName \<Rightarrow> keyName)"

datatype dcValue = BoolValue bool | DurationValue int

text \<open>
  The state of the dynamic-config source: a map from key names to values. A property
  (\<^verbatim>\<open>BoolPropertyFn\<close>, \<^verbatim>\<open>DurationPropertyFn\<close>) is a function that is called each time the
  value is needed; here it takes the state of the source at the time of the call.
\<close>

type_synonym dcState = "string \<Rightarrow> dcValue option"

text \<open>
  The dynamic-config \<^verbatim>\<open>Collection\<close> (\<^verbatim>\<open>dynamicconfig/config.go\<close>, not part of the sources)
  is the parameter \<open>dc\<close> of \<^verbatim>\<open>NewConfig\<close>: its two methods that the modelled fields use.
\<close>

record Collection =
  GetBoolProperty :: "Key \<Rightarrow> bool \<Rightarrow> dcState \<Rightarrow> bool"
  GetDurationProperty :: "Key \<Rightarrow> int \<Rightarrow> dcState \<Rightarrow> int"

text \<open>
  Modelled from the spec: the collection that the service builds over its dynamic-config
  client. The configuration is "runtime-reloadable": a property built for a key and a
  default yields, whenever it is called, the value registered under the key's name in the
  current state of the source, and the default when none (of that type) is registered.
\<close>

definition NewCollection :: Collection where
  "NewCollection =
     \<lparr> GetBoolProperty = (\<lambda>key defaultValue st.
         case st (Key_String key) of Some (BoolValue b) \<Rightarrow> b | _ \<Rightarrow> defaultValue),
       GetDurationProperty = (\<lambda>key defaultValue st.
         case st (Key_String key) of Some (DurationValue d) \<Rightarrow> d | _ \<Rightarrow> defaultValue) \<rparr>"

text \<open>
  \<^verbatim>\<open>Config\<close>: the fields the replicator reads and their neighbours in \<^verbatim>\<open>NewConfig\<close>
  (lines 152 and 163 to 169); the other fields are built the same way from their own keys.
\<close>

record Config =
  NumberOfShards :: int
  EnableDCMigration :: "dcState \<Rightarrow> bool"
  HistoryCacheTTL :: "dcState \<Rightarrow> int"
  EventsCacheTTL :: "dcState \<Rightarrow> int"
  RangeSizeBits :: nat
  AcquireShardInterval :: "dcState \<Rightarrow> int"
  StandbyClusterDelay :: "dcState \<Rightarrow> int"

definition NewConfig :: "Collection \<Rightarrow> int \<Rightarrow> bool \<Rightarrow> Config" where
  "NewConfig dc numberOfShards enableVisibilityToKafka =
     \<lparr> NumberOfShards = numberOfShards,
       EnableDCMigration = GetBoolProperty dc Key_EnableDCMigration False,
       HistoryCacheTTL = GetDurationProperty dc Key_HistoryCacheTTL Hour,
       EventsCacheTTL = GetDurationProperty dc Key_EventsCacheTTL Hour,
       RangeSizeBits = 20,
       AcquireShardInterval = GetDurationProperty dc Key_AcquireShardInterval Minute,
       StandbyClusterDelay = GetDurationProperty dc Key_AcquireShardInterval (5 * Minute) \<rparr>"

subsection \<open>The collaborators of the replicator\<close>

type_synonym Task = nat

type_synonym stateBuilderHandle = nat

datatype MetricScope = ReplicateHistoryEventsScope

datatype MetricName =
    ReplicationEventsSizeTimer
  | EmptyReplicationEventsCounter
  | DuplicateReplicationEventsCounter
  | StaleReplicationEventsCounter
  | BufferReplicationTaskTimer
  | UnbufferReplicationTaskTimer
  | HistoryConflictsCounter

record AppendHistoryNodesRequest =
  ahn_IsNewBranch :: bool
  ahn_Info :: string
  ahn_BranchToken :: string
  ahn_Events :: "HistoryEvent list"
  ahn_TransactionID :: int

record AppendHistoryEventsRequest =
  ahe_DomainID :: string
  ahe_Execution :: WorkflowExecution
  ahe_TransactionID :: int
  ahe_FirstEventID :: int
  ahe_EventBatchVersion :: int
  ahe_Events :: "HistoryEvent list"

datatype CreateWorkflowMode = CreateWorkflowModeBrandNew | CreateWorkflowModeWorkflowIDReuse

record CreateWorkflowExecutionRequest =
  cw_RequestID :: string
  cw_DomainID :: string
  cw_Execution :: WorkflowExecution
  cw_ParentDomainID :: string
  cw_ParentExecution :: "WorkflowExecution option"
  cw_InitiatedID :: int
  cw_TaskList :: string
  cw_WorkflowTypeName :: string
  cw_WorkflowTimeout :: int
  cw_DecisionTimeoutValue :: int
  cw_NextEventID :: int
  cw_LastProcessedEvent :: int
  cw_HistorySize :: int
  cw_TransferTasks :: "Task list"
  cw_DecisionVersion :: int
  cw_DecisionScheduleID :: int
  cw_DecisionStartedID :: int
  cw_DecisionStartToCloseTimeout :: int
  cw_TimerTasks :: "Task list"
  cw_PreviousRunID :: string
  cw_PreviousLastWriteVersion :: int
  cw_ReplicationState :: ReplicationState
  cw_EventStoreVersion :: int
  cw_BranchToken :: string
  cw_CreateWorkflowMode :: CreateWorkflowMode

text \<open>The values \<^verbatim>\<open>stateBuilder.applyEvents\<close> and the builder's task getters return.\<close>

record appliedEvents =
  ap_lastEvent :: HistoryEvent
  ap_di :: "decisionInfo option"
  ap_newRunStateBuilder :: "stateBuilderHandle option"
  ap_transferTasks :: "Task list"
  ap_timerTasks :: "Task list"

text \<open>Constants of packages \<^verbatim>\<open>common\<close> and \<^verbatim>\<open>persistence\<close>, which the sources do not hold.\<close>

record constants =
  EmptyVersion :: int
  EmptyEventID :: int
  FirstEventID :: int
  EventStoreVersionV2 :: int
  identityHistoryService :: string

record Metadata =
  ClusterNameForFailoverVersion :: "int \<Rightarrow> string"
  GetCurrentClusterName :: string
  IsVersionFromSameCluster :: "int \<Rightarrow> int \<Rightarrow> bool"

record 'w ShardContext =
  GetConfig :: Config
  GetNextTransferTaskID :: "'w \<Rightarrow> (error + int) \<times> 'w"
  AppendHistoryV2Events :: "AppendHistoryNodesRequest \<Rightarrow> string \<Rightarrow> 'w \<Rightarrow> (error + int) \<times> 'w"
  AppendHistoryEvents :: "AppendHistoryEventsRequest \<Rightarrow> 'w \<Rightarrow> (error + int) \<times> 'w"
  CreateWorkflowExecution :: "CreateWorkflowExecutionRequest \<Rightarrow> 'w \<Rightarrow> error option \<times> 'w"
  DeleteHistoryBranch :: "string \<Rightarrow> 'w \<Rightarrow> 'w"
  DeleteWorkflowExecutionHistory :: "string \<Rightarrow> WorkflowExecution \<Rightarrow> 'w \<Rightarrow> 'w"
  GetCurrentExecution :: "string \<Rightarrow> string \<Rightarrow> 'w \<Rightarrow> (error + string \<times> CloseStatus) \<times> 'w"
  SetCurrentTime :: "string \<Rightarrow> int \<Rightarrow> 'w \<Rightarrow> 'w"

record 'w historyEngineImpl =
  NotifyNewTask :: "string \<Rightarrow> Task list \<Rightarrow> 'w \<Rightarrow> 'w"
  NotifyNewTimers :: "string \<Rightarrow> int \<Rightarrow> Task list \<Rightarrow> 'w \<Rightarrow> 'w"

record 'w historyCache =
  getOrCreateWorkflowExecutionWithTimeout ::
    "string \<Rightarrow> WorkflowExecution \<Rightarrow> 'w \<Rightarrow> (error + workflowExecutionContext) \<times> 'w"
  release :: "workflowExecutionContext \<Rightarrow> error option \<Rightarrow> 'w \<Rightarrow> 'w"

text \<open>
  The methods of \<^verbatim>\<open>workflowExecutionContext\<close>. The context owns the mutable state it
  loaded; the model passes that state in and gets it back. \<open>updateHelper\<close> is given the
  arguments that vary (timer tasks, transaction id, time, source cluster).
\<close>

record 'w contextOps =
  loadWorkflowExecution :: "workflowExecutionContext \<Rightarrow> 'w \<Rightarrow> (error + mutableState) \<times> 'w"
  updateWorkflowExecution ::
    "workflowExecutionContext \<Rightarrow> mutableState \<Rightarrow> int \<Rightarrow> 'w \<Rightarrow> (error option \<times> mutableState) \<times> 'w"
  updateHelper ::
    "workflowExecutionContext \<Rightarrow> mutableState \<Rightarrow> Task list \<Rightarrow> int \<Rightarrow> int \<Rightarrow> string \<Rightarrow> 'w
       \<Rightarrow> (error option \<times> mutableState) \<times> 'w"
  replicateWorkflowExecution ::
    "workflowExecutionContext \<Rightarrow> mutableState \<Rightarrow> ReplicateEventsRequest \<Rightarrow> Task list \<Rightarrow> Task list
       \<Rightarrow> int \<Rightarrow> int \<Rightarrow> int \<Rightarrow> 'w \<Rightarrow> (error option \<times> mutableState) \<times> 'w"
  appendFirstBatchHistoryForContinueAsNew ::
    "workflowExecutionContext \<Rightarrow> mutableState \<Rightarrow> stateBuilderHandle \<Rightarrow> int \<Rightarrow> 'w
       \<Rightarrow> (error option \<times> mutableState) \<times> 'w"

text \<open>The mutators of \<^verbatim>\<open>mutableState\<close>, of its execution info and of the timer builder.\<close>

record mutableStateOps =
  UpdateReplicationStateVersion :: "int \<Rightarrow> bool \<Rightarrow> mutableState \<Rightarrow> mutableState"
  UpdateReplicationStateLastEventID :: "string \<Rightarrow> int \<Rightarrow> int \<Rightarrow> mutableState \<Rightarrow> mutableState"
  AddDecisionTaskFailedEvent ::
    "int \<Rightarrow> int \<Rightarrow> DecisionTaskFailedCause \<Rightarrow> string \<Rightarrow> mutableState \<Rightarrow> mutableState"
  AddWorkflowExecutionSignaled ::
    "string \<Rightarrow> string \<Rightarrow> string \<Rightarrow> mutableState \<Rightarrow> HistoryEvent option \<times> mutableState"
  BufferReplicationTask :: "ReplicateEventsRequest \<Rightarrow> mutableState \<Rightarrow> error option \<times> mutableState"
  DeleteBufferedReplicationTask :: "int \<Rightarrow> mutableState \<Rightarrow> mutableState"
  ReplicateActivityInfo :: "SyncActivityRequest \<Rightarrow> bool \<Rightarrow> mutableState \<Rightarrow> error option \<times> mutableState"
  SetLastFirstEventID :: "int \<Rightarrow> mutableState \<Rightarrow> mutableState"
  SetNextEventID :: "int \<Rightarrow> mutableState \<Rightarrow> mutableState"
  GetActivityTimerTaskIfNeeded :: "int \<Rightarrow> mutableState \<Rightarrow> Task option \<times> mutableState"

record 'w historyReplicator =
  shard :: "'w ShardContext"
  historyEngine :: "'w historyEngineImpl"
  historyCache :: "'w historyCache"
  clusterMetadata :: Metadata
  ctxOps :: "'w contextOps"
  msOps :: mutableStateOps
  cst :: constants
  dynamicConfig :: "'w \<Rightarrow> dcState"
  GetDomainByID :: "string \<Rightarrow> 'w \<Rightarrow> (error + string list) \<times> 'w"
  DeserializeBatchEvents :: "DataBlob \<Rightarrow> 'w \<Rightarrow> (error + HistoryEvent list) \<times> 'w"
  IncCounter :: "MetricScope \<Rightarrow> MetricName \<Rightarrow> 'w \<Rightarrow> 'w"
  RecordTimer :: "MetricScope \<Rightarrow> MetricName \<Rightarrow> int \<Rightarrow> 'w \<Rightarrow> 'w"
  uuid_New :: "'w \<Rightarrow> string \<times> 'w"
  validateDomainUUID :: "string option \<Rightarrow> error + string"
  historyGarbageCleanupInfo :: "string \<Rightarrow> string \<Rightarrow> string \<Rightarrow> string"
  setTaskInfo :: "int \<Rightarrow> int \<Rightarrow> Task list \<Rightarrow> Task list \<Rightarrow> 'w \<Rightarrow> 'w"
  applyEvents ::
    "mutableState \<Rightarrow> string \<Rightarrow> string \<Rightarrow> WorkflowExecution \<Rightarrow> HistoryEvent list
       \<Rightarrow> HistoryEvent list option \<Rightarrow> int \<Rightarrow> int \<Rightarrow> 'w \<Rightarrow> ((error + appliedEvents) \<times> mutableState) \<times> 'w"
  resolver_reset ::
    "workflowExecutionContext \<Rightarrow> string \<Rightarrow> string \<Rightarrow> int \<Rightarrow> WorkflowExecutionInfo \<Rightarrow> 'w
       \<Rightarrow> (error + mutableState) \<times> 'w"
  getLastMatchEventID ::
    "workflowExecutionContext \<Rightarrow> mutableState \<Rightarrow> ReplicateEventsRequest \<Rightarrow> 'w \<Rightarrow> (error + int) \<times> 'w"
  getNewMutableState :: "int \<Rightarrow> mutableState"
  ApplyResetEvent ::
    "ReplicateEventsRequest \<Rightarrow> string \<Rightarrow> string \<Rightarrow> string \<Rightarrow> 'w \<Rightarrow> error option \<times> 'w"

section \<open>The replicator\<close>

subsection \<open>Helpers without recursion\<close>

definition canModifyWorkflow :: "'w historyReplicator \<Rightarrow> mutableState \<Rightarrow> bool" where
  "canModifyWorkflow r msBuilder =
     (let lastWriteVersion = GetLastWriteVersion msBuilder
      in ClusterNameForFailoverVersion (clusterMetadata r) lastWriteVersion
           = GetCurrentClusterName (clusterMetadata r))"

text \<open>
  One \<^verbatim>\<open>range\<close> loop of \<^verbatim>\<open>getLatestCheckpoint\<close> over a replication-info map; the pair
  is \<open>(lastValidVersion, lastValidEventID)\<close>.
\<close>

fun checkpointLoop :: "int \<Rightarrow> (string \<times> ReplicationInfo) list \<Rightarrow> int \<times> int \<Rightarrow> int \<times> int" where
  "checkpointLoop emptyVersion [] (lastValidVersion, lastValidEventID) =
     (lastValidVersion, lastValidEventID)"
| "checkpointLoop emptyVersion ((k, ri) # rest) (lastValidVersion, lastValidEventID) =
     (if lastValidVersion = emptyVersion \<or> ri_Version ri > lastValidVersion
      then checkpointLoop emptyVersion rest (ri_Version ri, ri_LastEventId ri)
      else checkpointLoop emptyVersion rest (lastValidVersion, lastValidEventID))"

definition getLatestCheckpoint ::
  "'w historyReplicator \<Rightarrow> (string \<times> ReplicationInfo) list \<Rightarrow> (string \<times> ReplicationInfo) list
     \<Rightarrow> int \<times> int" where
  "getLatestCheckpoint r replicationInfoRemote replicationInfoLocal =
     checkpointLoop (EmptyVersion (cst r)) replicationInfoLocal
       (checkpointLoop (EmptyVersion (cst r)) replicationInfoRemote
          (EmptyVersion (cst r), EmptyEventID (cst r)))"

definition deserializeBlob ::
  "'w historyReplicator \<Rightarrow> DataBlob \<Rightarrow> 'w \<Rightarrow> (error + HistoryEvent list) \<times> 'w" where
  "deserializeBlob r blob w =
     (if blob_EncodingType blob \<noteq> EncodingTypeThriftRW then (Inl ErrUnknownEncodingType, w)
      else
        case DeserializeBatchEvents r
               \<lparr> blob_EncodingType = EncodingTypeThriftRW, blob_Data = blob_Data blob \<rparr> w of
          (Inl err, w1) \<Rightarrow> (Inl err, w1)
        | (Inr historyEvents, w1) \<Rightarrow>
            if length historyEvents = 0 then (Inl ErrEmptyHistoryRawEventBatch, w1)
            else (Inr historyEvents, w1))"

definition notify ::
  "'w historyReplicator \<Rightarrow> string \<Rightarrow> int \<Rightarrow> Task list \<Rightarrow> Task list \<Rightarrow> 'w \<Rightarrow> 'w" where
  "notify r clusterName now transferTasks timerTasks w =
     (let now1 = now + wrap64 (- StandbyClusterDelay (GetConfig (shard r)) (dynamicConfig r w));
          w1 = SetCurrentTime (shard r) clusterName now1 w;
          w2 = NotifyNewTask (historyEngine r) clusterName transferTasks w1
      in NotifyNewTimers (historyEngine r) clusterName now1 timerTasks w2)"

definition updateMutableStateWithTimer ::
  "'w historyReplicator \<Rightarrow> workflowExecutionContext \<Rightarrow> mutableState \<Rightarrow> int \<Rightarrow> Task list \<Rightarrow> 'w
     \<Rightarrow> (error option \<times> mutableState) \<times> 'w" where
  "updateMutableStateWithTimer r ctx msBuilder now timerTasks w =
     (case GetNextTransferTaskID (shard r) w of
        (Inl err, w1) \<Rightarrow> ((Some err, msBuilder), w1)
      | (Inr transactionID, w1) \<Rightarrow>
          let lastWriteVersion = GetLastWriteVersion msBuilder;
              sourceCluster = ClusterNameForFailoverVersion (clusterMetadata r) lastWriteVersion
          in updateHelper (ctxOps r) ctx msBuilder timerTasks transactionID now sourceCluster w1)"

definition updateMutableStateOnly ::
  "'w historyReplicator \<Rightarrow> workflowExecutionContext \<Rightarrow> mutableState \<Rightarrow> 'w
     \<Rightarrow> (error option \<times> mutableState) \<times> 'w" where
  "updateMutableStateOnly r ctx msBuilder w =
     updateMutableStateWithTimer r ctx msBuilder zeroTime [] w"

text \<open>
  The loop of \<^verbatim>\<open>garbageCollectSignals\<close> over the events; the flag is
  \<open>updateMutableState\<close>. \<^verbatim>\<open>attr.Input\<close> reads a field through the attributes pointer.
\<close>

fun signalsLoop ::
  "mutableStateOps \<Rightarrow> HistoryEvent list \<Rightarrow> bool \<Rightarrow> mutableState \<Rightarrow> (error + bool) \<times> mutableState" where
  "signalsLoop ops [] updateMutableState msBuilder = (Inr updateMutableState, msBuilder)"
| "signalsLoop ops (event # events) updateMutableState msBuilder =
     (case ev_EventType event of
        EventTypeWorkflowExecutionSignaled \<Rightarrow>
          (case WorkflowExecutionSignaledEventAttributes event of
             None \<Rightarrow> (Inl (Panic ''nil pointer dereference''), msBuilder)
           | Some attr \<Rightarrow>
               (case AddWorkflowExecutionSignaled ops (SignalName attr) (Input attr) (Identity attr)
                       msBuilder of
                  (None, ms1) \<Rightarrow>
                    (Inl (InternalServiceError ''Unable to signal workflow execution.''), ms1)
                | (Some e, ms1) \<Rightarrow> signalsLoop ops events True ms1))
      | _ \<Rightarrow> signalsLoop ops events updateMutableState msBuilder)"

text \<open>The result is \<open>(((applied, err), msBuilder), world)\<close>.\<close>

definition garbageCollectSignals ::
  "'w historyReplicator \<Rightarrow> workflowExecutionContext \<Rightarrow> mutableState \<Rightarrow> HistoryEvent list \<Rightarrow> 'w
     \<Rightarrow> ((bool \<times> error option) \<times> mutableState) \<times> 'w" where
  "garbageCollectSignals r ctx msBuilder events w =
     (if \<not> IsWorkflowExecutionRunning msBuilder \<or> \<not> canModifyWorkflow r msBuilder
      then (((False, None), msBuilder), w)
      else
        let ms1 = UpdateReplicationStateVersion (msOps r) (GetLastWriteVersion msBuilder) True msBuilder
        in case signalsLoop (msOps r) events False ms1 of
             (Inl err, ms2) \<Rightarrow> (((False, Some err), ms2), w)
           | (Inr updateMutableState, ms2) \<Rightarrow>
               if \<not> updateMutableState then (((False, None), ms2), w)
               else
                 (case GetNextTransferTaskID (shard r) w of
                    (Inl err, w1) \<Rightarrow> (((False, Some err), ms2), w1)
                  | (Inr transactionID, w1) \<Rightarrow>
                      (case updateWorkflowExecution (ctxOps r) ctx ms2 transactionID w1 of
                         ((err, ms3), w2) \<Rightarrow> (((True, err), ms3), w2))))"

definition flushEventsBuffer ::
  "'w historyReplicator \<Rightarrow> workflowExecutionContext \<Rightarrow> mutableState \<Rightarrow> 'w
     \<Rightarrow> (error option \<times> mutableState) \<times> 'w" where
  "flushEventsBuffer r ctx msBuilder w =
     (if \<not> IsWorkflowExecutionRunning msBuilder \<or> \<not> HasBufferedEvents msBuilder
           \<or> \<not> canModifyWorkflow r msBuilder
      then ((None, msBuilder), w)
      else
        case GetInFlightDecisionTask msBuilder of
          None \<Rightarrow> ((Some ErrCorruptedMutableStateDecision, msBuilder), w)
        | Some di \<Rightarrow>
            let ms1 = UpdateReplicationStateVersion (msOps r) (GetLastWriteVersion msBuilder) True
                        msBuilder;
                ms2 = AddDecisionTaskFailedEvent (msOps r) (di_ScheduleID di) (di_StartedID di)
                        DecisionTaskFailedCauseFailoverCloseDecision
                        (identityHistoryService (cst r)) ms1
            in (case GetNextTransferTaskID (shard r) w of
                  (Inl err, w1) \<Rightarrow> ((Some err, ms2), w1)
                | (Inr transactionID, w1) \<Rightarrow>
                    updateWorkflowExecution (ctxOps r) ctx ms2 transactionID w1))"

definition canDoDCMigration :: "'w historyReplicator \<Rightarrow> string \<Rightarrow> 'w \<Rightarrow> (error + bool) \<times> 'w" where
  "canDoDCMigration r domainID w =
     (case GetDomainByID r domainID w of
        (Inl err, w1) \<Rightarrow> (Inl err, w1)
      | (Inr clusters, w1) \<Rightarrow>
          (Inr (fold (\<lambda>targetCluster doDCMigration.
                        if targetCluster = GetCurrentClusterName (clusterMetadata r) then False
                        else doDCMigration) clusters True), w1))"

text \<open>
  \<^verbatim>\<open>getCurrentWorkflowMutableState\<close>: the context of the current run of a workflow id
  (the run id is left empty) and its mutable state.
\<close>

definition getCurrentWorkflowMutableState ::
  "'w historyReplicator \<Rightarrow> string \<Rightarrow> string \<Rightarrow> 'w
     \<Rightarrow> (error + workflowExecutionContext \<times> mutableState) \<times> 'w" where
  "getCurrentWorkflowMutableState r domainID workflowID w =
     (case getOrCreateWorkflowExecutionWithTimeout (historyCache r) domainID
             \<lparr> WorkflowId = workflowID, RunId = [] \<rparr> w of
        (Inl err, w1) \<Rightarrow> (Inl err, w1)
      | (Inr ctx, w1) \<Rightarrow>
          (case loadWorkflowExecution (ctxOps r) ctx w1 of
             (Inl err, w2) \<Rightarrow> (Inl err, release (historyCache r) ctx (Some err) w2)
           | (Inr msBuilder, w2) \<Rightarrow> (Inr (ctx, msBuilder), w2)))"

text \<open>
  The first loop of \<^verbatim>\<open>flushReplicationBuffer\<close>: it ranges over the buffered tasks as
  they were when the loop started and removes the stale ones.
\<close>

fun flushStaleTasks ::
  "'w historyReplicator \<Rightarrow> workflowExecutionContext \<Rightarrow> (int \<times> BufferedReplicationTask) list
     \<Rightarrow> mutableState \<Rightarrow> 'w \<Rightarrow> (error option \<times> mutableState) \<times> 'w" where
  "flushStaleTasks r ctx [] msBuilder w = ((None, msBuilder), w)"
| "flushStaleTasks r ctx ((firstEventID, bt) # rest) msBuilder w =
     (if IsWorkflowExecutionRunning msBuilder \<and> bt_Version bt < GetLastWriteVersion msBuilder
      then
        let ms1 = DeleteBufferedReplicationTask (msOps r) firstEventID msBuilder
        in case garbageCollectSignals r ctx ms1 (bt_History bt) w of
             (((applied, Some err), ms2), w1) \<Rightarrow> ((Some err, ms2), w1)
           | (((applied, None), ms2), w1) \<Rightarrow>
               if \<not> applied
               then (case updateMutableStateOnly r ctx ms2 w1 of
                       ((Some err, ms3), w2) \<Rightarrow> ((Some err, ms3), w2)
                     | ((None, ms3), w2) \<Rightarrow> flushStaleTasks r ctx rest ms3 w2)
               else flushStaleTasks r ctx rest ms2 w1
      else flushStaleTasks r ctx rest msBuilder w)"

text \<open>The closures \<^verbatim>\<open>createWorkflow\<close> and \<^verbatim>\<open>deleteHistory\<close> of \<^verbatim>\<open>replicateWorkflowStarted\<close>.\<close>

definition createWorkflow ::
  "'w historyReplicator \<Rightarrow> mutableState \<Rightarrow> string \<Rightarrow> WorkflowExecution \<Rightarrow> string
     \<Rightarrow> WorkflowExecution option \<Rightarrow> int \<Rightarrow> int \<Rightarrow> decisionInfo option \<Rightarrow> Task list \<Rightarrow> Task list
     \<Rightarrow> bool \<Rightarrow> string \<Rightarrow> int \<Rightarrow> 'w \<Rightarrow> error option \<times> 'w" where
  "createWorkflow r msBuilder domainID execution parentDomainID parentExecution initiatedID
       historySize di transferTasks timerTasks isBrandNew prevRunID prevLastWriteVersion w =
     (let executionInfo = GetExecutionInfo msBuilder;
          createRequest =
            \<lparr> cw_RequestID = CreateRequestID executionInfo,
              cw_DomainID = domainID,
              cw_Execution = execution,
              cw_ParentDomainID = parentDomainID,
              cw_ParentExecution = parentExecution,
              cw_InitiatedID = initiatedID,
              cw_TaskList = TaskList executionInfo,
              cw_WorkflowTypeName = WorkflowTypeName executionInfo,
              cw_WorkflowTimeout = WorkflowTimeout executionInfo,
              cw_DecisionTimeoutValue = DecisionTimeoutValue executionInfo,
              cw_NextEventID = GetNextEventID msBuilder,
              cw_LastProcessedEvent = EmptyEventID (cst r),
              cw_HistorySize = historySize,
              cw_TransferTasks = transferTasks,
              cw_DecisionVersion = (case di of None \<Rightarrow> EmptyVersion (cst r) | Some d \<Rightarrow> di_Version d),
              cw_DecisionScheduleID =
                (case di of None \<Rightarrow> EmptyEventID (cst r) | Some d \<Rightarrow> di_ScheduleID d),
              cw_DecisionStartedID =
                (case di of None \<Rightarrow> EmptyEventID (cst r) | Some d \<Rightarrow> di_StartedID d),
              cw_DecisionStartToCloseTimeout =
                (case di of None \<Rightarrow> 0 | Some d \<Rightarrow> di_DecisionTimeout d),
              cw_TimerTasks = timerTasks,
              cw_PreviousRunID = prevRunID,
              cw_PreviousLastWriteVersion = prevLastWriteVersion,
              cw_ReplicationState = GetReplicationState msBuilder,
              cw_EventStoreVersion = GetEventStoreVersion msBuilder,
              cw_BranchToken = GetCurrentBranch msBuilder,
              cw_CreateWorkflowMode =
                (if \<not> isBrandNew then CreateWorkflowModeWorkflowIDReuse
                 else CreateWorkflowModeBrandNew) \<rparr>
      in CreateWorkflowExecution (shard r) createRequest w)"

definition deleteHistory ::
  "'w historyReplicator \<Rightarrow> mutableState \<Rightarrow> string \<Rightarrow> WorkflowExecution \<Rightarrow> 'w \<Rightarrow> 'w" where
  "deleteHistory r msBuilder domainID execution w =
     (if GetEventStoreVersion msBuilder = EventStoreVersionV2 (cst r)
      then DeleteHistoryBranch (shard r) (GetCurrentBranch msBuilder) w
      else DeleteWorkflowExecutionHistory (shard r) domainID execution w)"

subsection \<open>Applying a batch, starting a workflow, terminating, flushing\<close>

text \<open>
  \<^verbatim>\<open>ApplyReplicationTask\<close> calls \<^verbatim>\<open>replicateWorkflowStarted\<close> for a batch that begins
  with a start event, and \<^verbatim>\<open>replicateWorkflowStarted\<close> reaches \<^verbatim>\<open>ApplyReplicationTask\<close>
  again through \<^verbatim>\<open>terminateWorkflow\<close> and through \<^verbatim>\<open>flushCurrentWorkflowBuffer\<close> and
  \<^verbatim>\<open>flushReplicationBuffer\<close>. The functions are first written with that one call left
  open (the argument \<open>startWorkflow\<close> stands for \<^verbatim>\<open>r.replicateWorkflowStarted\<close>), in the
  order of their dependencies, and closed below by recursion on the fuel. The second
  loop of \<^verbatim>\<open>flushReplicationBuffer\<close> is \<open>flushLoop\<close>; it uses up one unit of fuel for
  each round, and its extra argument and result is \<open>flushedCount\<close>. The transfer and
  timer tasks of the state builder are references: \<open>setTaskInfo\<close> changes them in the
  world.
\<close>

type_synonym 'w startHandler =
  "'w historyReplicator \<Rightarrow> workflowExecutionContext \<Rightarrow> mutableState \<Rightarrow> decisionInfo option
     \<Rightarrow> string \<Rightarrow> HistoryEvent list \<Rightarrow> Task list \<Rightarrow> Task list \<Rightarrow> 'w
     \<Rightarrow> ((error option \<times> mutableState) \<times> 'w) option"

definition ApplyReplicationTask_open ::
  "'w startHandler \<Rightarrow> 'w historyReplicator \<Rightarrow> workflowExecutionContext \<Rightarrow> mutableState
     \<Rightarrow> ReplicateEventsRequest \<Rightarrow> 'w \<Rightarrow> ((error option \<times> mutableState) \<times> 'w) option" where
  "ApplyReplicationTask_open startWorkflow r ctx msBuilder request w =
     (if \<not> IsWorkflowExecutionRunning msBuilder then Some ((None, msBuilder), w)
      else
        case validateDomainUUID r (DomainUUID request) of
          Inl err \<Rightarrow> Some ((Some err, msBuilder), w)
        | Inr domainID \<Rightarrow>
            if length (History request) = 0 then Some ((None, msBuilder), w)
            else
              (let execution = req_WorkflowExecution request
               in case uuid_New r w of
                 (requestID, w1) \<Rightarrow>
                   (case applyEvents r msBuilder domainID requestID execution (History request)
                           (NewRunHistory request) (EventStoreVersion request)
                           (NewRunEventStoreVersion request) w1 of
                      ((Inl err, ms1), w2) \<Rightarrow> Some ((Some err, ms1), w2)
                    | ((Inr ap, ms1), w2) \<Rightarrow>
                        (case (case ap_newRunStateBuilder ap of
                                 None \<Rightarrow> ((None, ms1), w2)
                               | Some newRunStateBuilder \<Rightarrow>
                                   (case GetNextTransferTaskID (shard r) w2 of
                                      (Inl err, w3) \<Rightarrow> ((Some err, ms1), w3)
                                    | (Inr transactionID, w3) \<Rightarrow>
                                        appendFirstBatchHistoryForContinueAsNew (ctxOps r) ctx ms1
                                          newRunStateBuilder transactionID w3)) of
                           ((Some err, ms2), w4) \<Rightarrow> Some ((Some err, ms2), w4)
                         | ((None, ms2), w4) \<Rightarrow>
                             (case (case ev_EventType (hd (History request)) of
                                      EventTypeWorkflowExecutionStarted \<Rightarrow>
                                        startWorkflow r ctx ms2 (ap_di ap)
                                          (SourceCluster request) (History request)
                                          (ap_transferTasks ap) (ap_timerTasks ap) w4
                                    | _ \<Rightarrow>
                                        (case GetNextTransferTaskID (shard r) w4 of
                                           (Inl err2, w5) \<Rightarrow> Some ((Some err2, ms2), w5)
                                         | (Inr transactionID, w5) \<Rightarrow>
                                             Some (replicateWorkflowExecution (ctxOps r) ctx ms2
                                                     request (ap_transferTasks ap)
                                                     (ap_timerTasks ap)
                                                     (ev_EventId (ap_lastEvent ap)) transactionID
                                                     (ev_Timestamp (ap_lastEvent ap)) w5))) of
                                None \<Rightarrow> None
                              | Some ((err, ms3), w6) \<Rightarrow>
                                  Some ((err, ms3),
                                        if err = None
                                        then notify r (SourceCluster request)
                                               (ev_Timestamp (ap_lastEvent ap))
                                               (ap_transferTasks ap) (ap_timerTasks ap) w6
                                        else w6))))))"

definition terminateWorkflow_open ::
  "'w startHandler \<Rightarrow> 'w historyReplicator \<Rightarrow> string \<Rightarrow> string \<Rightarrow> string \<Rightarrow> int \<Rightarrow> int \<Rightarrow> 'w
     \<Rightarrow> (error option \<times> 'w) option" where
  "terminateWorkflow_open startWorkflow r domainID workflowID runID incomingVersion incomingTimestamp w =
     (let execution = \<lparr> WorkflowId = workflowID, RunId = runID \<rparr>
      in case getOrCreateWorkflowExecutionWithTimeout (historyCache r) domainID execution w of
        (Inl err, w1) \<Rightarrow> Some (Some err, w1)
      | (Inr ctx, w1) \<Rightarrow>
          (case loadWorkflowExecution (ctxOps r) ctx w1 of
             (Inl err, w2) \<Rightarrow> Some (Some err, release (historyCache r) ctx (Some err) w2)
           | (Inr msBuilder, w2) \<Rightarrow>
               if \<not> IsWorkflowExecutionRunning msBuilder
               then Some (None, release (historyCache r) ctx None w2)
               else
                 (let nextEventID = GetNextEventID msBuilder;
                      sourceCluster =
                        ClusterNameForFailoverVersion (clusterMetadata r) incomingVersion;
                      terminationEvent =
                        \<lparr> ev_EventId = nextEventID,
                          ev_Timestamp = incomingTimestamp,
                          ev_Version = incomingVersion,
                          ev_EventType = EventTypeWorkflowExecutionTerminated,
                          WorkflowExecutionSignaledEventAttributes = None,
                          WorkflowExecutionTerminatedEventAttributes =
                            Some \<lparr> term_Reason = workflowTerminationReason,
                                   term_Identity = workflowTerminationIdentity,
                                   term_Details = None \<rparr> \<rparr>;
                      req =
                        \<lparr> SourceCluster = sourceCluster,
                          DomainUUID = Some domainID,
                          req_WorkflowExecution = execution,
                          FirstEventId = nextEventID,
                          NextEventId = wrap64 (nextEventID + 1),
                          req_Version = incomingVersion,
                          req_ReplicationInfo = [],
                          History = [terminationEvent],
                          NewRunHistory = None,
                          EventStoreVersion = 0,
                          NewRunEventStoreVersion = 0,
                          ForceBufferEvents = False,
                          ResetWorkflow = False \<rparr>
                  in case ApplyReplicationTask_open startWorkflow r ctx msBuilder req w2 of
                    None \<Rightarrow> None
                  | Some ((err, ms1), w3) \<Rightarrow>
                      Some (err, release (historyCache r) ctx err w3))))"

fun flushLoop_open ::
  "'w startHandler \<Rightarrow> nat \<Rightarrow> 'w historyReplicator \<Rightarrow> workflowExecutionContext \<Rightarrow> string
     \<Rightarrow> WorkflowExecution \<Rightarrow> int \<Rightarrow> mutableState \<Rightarrow> 'w
     \<Rightarrow> (((error option \<times> int) \<times> mutableState) \<times> 'w) option" where
  "flushLoop_open startWorkflow n r ctx domainID execution flushedCount msBuilder w =
     (if IsWorkflowExecutionRunning msBuilder \<and> HasBufferedReplicationTasks msBuilder
      then
        (let nextEventID = GetNextEventID msBuilder
         in case map_of (GetAllBufferedReplicationTasks msBuilder) nextEventID of
           None \<Rightarrow> Some (((None, flushedCount), msBuilder), w)
         | Some bt \<Rightarrow>
             (case n of
                0 \<Rightarrow> None
              | Suc m \<Rightarrow>
                  (let ms1 = DeleteBufferedReplicationTask (msOps r) nextEventID msBuilder;
                       sourceCluster =
                         ClusterNameForFailoverVersion (clusterMetadata r) (bt_Version bt);
                       req =
                         \<lparr> SourceCluster = sourceCluster,
                           DomainUUID = Some domainID,
                           req_WorkflowExecution = execution,
                           FirstEventId = bt_FirstEventID bt,
                           NextEventId = bt_NextEventID bt,
                           req_Version = bt_Version bt,
                           req_ReplicationInfo = [],
                           History = bt_History bt,
                           NewRunHistory = Some (bt_NewRunHistory bt),
                           EventStoreVersion = bt_EventStoreVersion bt,
                           NewRunEventStoreVersion = bt_NewRunEventStoreVersion bt,
                           ForceBufferEvents = False,
                           ResetWorkflow = False \<rparr>
                   in case ApplyReplicationTask_open startWorkflow r ctx ms1 req w of
                     None \<Rightarrow> None
                   | Some ((Some err, ms2), w1) \<Rightarrow> Some (((Some err, flushedCount), ms2), w1)
                   | Some ((None, ms2), w1) \<Rightarrow>
                       flushLoop_open startWorkflow m r ctx domainID execution
                         (wrap64 (flushedCount
                                   + wrap64 (bt_NextEventID bt - bt_FirstEventID bt)))
                         ms2 w1)))
      else Some (((None, flushedCount), msBuilder), w))"

definition flushReplicationBuffer_open ::
  "'w startHandler \<Rightarrow> nat \<Rightarrow> 'w historyReplicator \<Rightarrow> workflowExecutionContext \<Rightarrow> mutableState
     \<Rightarrow> 'w \<Rightarrow> ((error option \<times> mutableState) \<times> 'w) option" where
  "flushReplicationBuffer_open startWorkflow n r ctx msBuilder w =
     (if \<not> IsWorkflowExecutionRunning msBuilder then Some ((None, msBuilder), w)
      else
        (let domainID = DomainID (GetExecutionInfo msBuilder);
             execution = \<lparr> WorkflowId = WorkflowID (GetExecutionInfo msBuilder),
                           RunId = RunID (GetExecutionInfo msBuilder) \<rparr>
         in case flushStaleTasks r ctx (GetAllBufferedReplicationTasks msBuilder) msBuilder w of
           ((Some err, ms1), w1) \<Rightarrow>
             Some ((Some err, ms1),
                   RecordTimer r ReplicateHistoryEventsScope UnbufferReplicationTaskTimer 0 w1)
         | ((None, ms1), w1) \<Rightarrow>
             (case flushLoop_open startWorkflow n r ctx domainID execution 0 ms1 w1 of
                None \<Rightarrow> None
              | Some (((err, flushedCount), ms2), w2) \<Rightarrow>
                  Some ((err, ms2),
                        RecordTimer r ReplicateHistoryEventsScope UnbufferReplicationTaskTimer
                          flushedCount w2))))"

definition flushCurrentWorkflowBuffer_open ::
  "'w startHandler \<Rightarrow> nat \<Rightarrow> 'w historyReplicator \<Rightarrow> string \<Rightarrow> string \<Rightarrow> 'w
     \<Rightarrow> ((error + string \<times> int \<times> bool) \<times> 'w) option" where
  "flushCurrentWorkflowBuffer_open startWorkflow n r domainID workflowID w =
     (case getCurrentWorkflowMutableState r domainID workflowID w of
        (Inl err, w1) \<Rightarrow> Some (Inl err, w1)
      | (Inr (currentContext, currentMutableState), w1) \<Rightarrow>
          (case flushReplicationBuffer_open startWorkflow n r currentContext currentMutableState w1 of
             None \<Rightarrow> None
           | Some ((err, ms1), w2) \<Rightarrow>
               (let w3 = release (historyCache r) currentContext err w2
                in case err of
                  Some e \<Rightarrow> Some (Inl e, w3)
                | None \<Rightarrow>
                    Some (Inr (RunId (getExecution currentContext), GetNextEventID ms1,
                               IsWorkflowExecutionRunning ms1), w3))))"

definition replicateWorkflowStarted_open ::
  "'w startHandler \<Rightarrow> nat \<Rightarrow> 'w startHandler" where
  "replicateWorkflowStarted_open startWorkflow n r ctx msBuilder di sourceCluster history transferTasks timerTasks w =
     (case history of
        [] \<Rightarrow> Some ((Some (Panic ''index out of range''), msBuilder), w)
      | firstEvent # later \<Rightarrow>
          (let executionInfo = GetExecutionInfo msBuilder;
               domainID = DomainID executionInfo;
               execution = \<lparr> WorkflowId = WorkflowID executionInfo, RunId = RunID executionInfo \<rparr>;
               initiatedID =
                 (if ParentDomainID executionInfo \<noteq> [] then InitiatedID executionInfo
                  else EmptyEventID (cst r));
               parentDomainID =
                 (if ParentDomainID executionInfo \<noteq> [] then ParentDomainID executionInfo else []);
               parentExecution =
                 (if ParentDomainID executionInfo \<noteq> []
                  then Some \<lparr> WorkflowId = ParentWorkflowID executionInfo,
                              RunId = ParentRunID executionInfo \<rparr>
                  else None);
               lastEvent = last history
           in case GetNextTransferTaskID (shard r) w of
             (Inl err, w1) \<Rightarrow> Some ((Some err, msBuilder), w1)
           | (Inr transactionID, w1) \<Rightarrow>
               (case (if GetEventStoreVersion msBuilder = EventStoreVersionV2 (cst r)
                      then AppendHistoryV2Events (shard r)
                             \<lparr> ahn_IsNewBranch = True,
                               ahn_Info = historyGarbageCleanupInfo r domainID (WorkflowId execution)
                                            (RunId execution),
                               ahn_BranchToken = GetCurrentBranch msBuilder,
                               ahn_Events = history,
                               ahn_TransactionID = transactionID \<rparr>
                             (DomainID (GetExecutionInfo msBuilder)) w1
                      else AppendHistoryEvents (shard r)
                             \<lparr> ahe_DomainID = domainID,
                               ahe_Execution = execution,
                               ahe_TransactionID = transactionID,
                               ahe_FirstEventID = ev_EventId firstEvent,
                               ahe_EventBatchVersion = ev_Version firstEvent,
                               ahe_Events = history \<rparr> w1) of
                  (Inl err, w2) \<Rightarrow> Some ((Some err, msBuilder), w2)
                | (Inr historySize, w2) \<Rightarrow>
                    (let ms1 = SetLastFirstEventID (msOps r) (ev_EventId firstEvent) msBuilder;
                         ms2 = SetNextEventID (msOps r) (wrap64 (ev_EventId lastEvent + 1)) ms1;
                         incomingVersion = ev_Version firstEvent;
                         ms3 = UpdateReplicationStateLastEventID (msOps r) sourceCluster
                                 incomingVersion (ev_EventId lastEvent) ms2;
                         w3 = setTaskInfo r (GetCurrentVersion ms3) (ev_Timestamp lastEvent)
                                transferTasks timerTasks w2;
                         create = createWorkflow r ms3 domainID execution parentDomainID
                                    parentExecution initiatedID historySize di transferTasks
                                    timerTasks
                     in case create True [] 0 w3 of
                       (None, w4) \<Rightarrow> Some ((None, ms3), w4)
                     | (Some err, w4) \<Rightarrow>
                         (case err of
                            WorkflowExecutionAlreadyStartedError currentRunID currentState
                                currentLastWriteVersion \<Rightarrow>
                              if currentRunID = RunId execution
                              then Some ((None, ms3),
                                         IncCounter r ReplicateHistoryEventsScope
                                           DuplicateReplicationEventsCounter w4)
                              else if currentState = WorkflowStateCompleted
                              then (case create False currentRunID currentLastWriteVersion w4 of
                                      (err1, w5) \<Rightarrow> Some ((err1, ms3), w5))
                              else if currentLastWriteVersion > incomingVersion
                              then Some ((None, ms3),
                                         deleteHistory r ms3 domainID execution
                                           (IncCounter r ReplicateHistoryEventsScope
                                              StaleReplicationEventsCounter w4))
                              else if currentLastWriteVersion = incomingVersion
                              then (case flushCurrentWorkflowBuffer_open startWorkflow n r domainID
                                           (WorkflowId execution) w4 of
                                      None \<Rightarrow> None
                                    | Some (Inl err1, w5) \<Rightarrow> Some ((Some err1, ms3), w5)
                                    | Some (Inr (currentRunID1, currentNextEventID, running), w5) \<Rightarrow>
                                        Some ((Some (newRetryTaskErrorWithHint
                                                       ErrRetryExistingWorkflowMsg domainID
                                                       (WorkflowId execution) currentRunID1
                                                       currentNextEventID), ms3), w5))
                              else
                                (let incomingTimestamp = ev_Timestamp lastEvent
                                 in case terminateWorkflow_open startWorkflow r domainID
                                           (WorkflowID (GetExecutionInfo ms3)) currentRunID
                                           incomingVersion incomingTimestamp w4 of
                                   None \<Rightarrow> None
                                 | Some (err1, w5) \<Rightarrow>
                                     if (case err1 of None \<Rightarrow> False
                                         | Some e \<Rightarrow> \<not> isEntityNotExistsError e)
                                     then Some ((err1, ms3), w5)
                                     else (case create False currentRunID incomingVersion w5 of
                                             (err2, w6) \<Rightarrow> Some ((err2, ms3), w6)))
                          | _ \<Rightarrow> Some ((Some err, ms3), w4))))))"

text \<open>
  Closing the recursion: with no fuel a nested start does not return; with fuel
  \<open>Suc n\<close> it is \<^verbatim>\<open>replicateWorkflowStarted\<close> with fuel \<open>n\<close>.
\<close>

primrec startWorkflowHandler :: "nat \<Rightarrow> 'w startHandler" where
  "startWorkflowHandler 0 = (\<lambda>r ctx msBuilder di sourceCluster history transferTasks timerTasks w. None)"
| "startWorkflowHandler (Suc n) = replicateWorkflowStarted_open (startWorkflowHandler n) n"

definition ApplyReplicationTask ::
  "nat \<Rightarrow> 'w historyReplicator \<Rightarrow> workflowExecutionContext \<Rightarrow> mutableState
     \<Rightarrow> ReplicateEventsRequest \<Rightarrow> 'w \<Rightarrow> ((error option \<times> mutableState) \<times> 'w) option" where
  "ApplyReplicationTask n = ApplyReplicationTask_open (startWorkflowHandler n)"

definition terminateWorkflow ::
  "nat \<Rightarrow> 'w historyReplicator \<Rightarrow> string \<Rightarrow> string \<Rightarrow> string \<Rightarrow> int \<Rightarrow> int \<Rightarrow> 'w
     \<Rightarrow> (error option \<times> 'w) option" where
  "terminateWorkflow n = terminateWorkflow_open (startWorkflowHandler n)"

definition flushReplicationBuffer ::
  "nat \<Rightarrow> 'w historyReplicator \<Rightarrow> workflowExecutionContext \<Rightarrow> mutableState
     \<Rightarrow> 'w \<Rightarrow> ((error option \<times> mutableState) \<times> 'w) option" where
  "flushReplicationBuffer n = flushReplicationBuffer_open (startWorkflowHandler n) n"

definition flushCurrentWorkflowBuffer ::
  "nat \<Rightarrow> 'w historyReplicator \<Rightarrow> string \<Rightarrow> string \<Rightarrow> 'w
     \<Rightarrow> ((error + string \<times> int \<times> bool) \<times> 'w) option" where
  "flushCurrentWorkflowBuffer n = flushCurrentWorkflowBuffer_open (startWorkflowHandler n) n"

definition replicateWorkflowStarted :: "nat \<Rightarrow> 'w startHandler" where
  "replicateWorkflowStarted n = replicateWorkflowStarted_open (startWorkflowHandler n) n"

subsection \<open>Conflict resolution and version checking\<close>

definition conflictResolutionTerminateCurrentRunningIfNotSelf ::
  "nat \<Rightarrow> 'w historyReplicator \<Rightarrow> mutableState \<Rightarrow> int \<Rightarrow> int \<Rightarrow> 'w
     \<Rightarrow> ((error + string) \<times> 'w) option" where
  "conflictResolutionTerminateCurrentRunningIfNotSelf n r msBuilder incomingVersion
       incomingTimestamp w =
     (if IsWorkflowExecutionRunning msBuilder
      then Some (Inr (RunID (GetExecutionInfo msBuilder)), w)
      else
        (let domainID = DomainID (GetExecutionInfo msBuilder);
             workflowID = WorkflowID (GetExecutionInfo msBuilder)
         in case GetCurrentExecution (shard r) domainID workflowID w of
           (Inl err, w1) \<Rightarrow> Some (Inl err, w1)
         | (Inr (currentRunID, currentCloseStatus), w1) \<Rightarrow>
             if currentCloseStatus \<noteq> WorkflowCloseStatusNone then Some (Inr currentRunID, w1)
             else
               (case terminateWorkflow n r domainID workflowID currentRunID incomingVersion
                       incomingTimestamp w1 of
                  None \<Rightarrow> None
                | Some (Some err, w2) \<Rightarrow> Some (Inl err, w2)
                | Some (None, w2) \<Rightarrow> Some (Inr currentRunID, w2))))"

definition resetMutableState ::
  "nat \<Rightarrow> 'w historyReplicator \<Rightarrow> workflowExecutionContext \<Rightarrow> mutableState \<Rightarrow> int \<Rightarrow> int \<Rightarrow> int
     \<Rightarrow> 'w \<Rightarrow> ((error + mutableState) \<times> 'w) option" where
  "resetMutableState n r ctx msBuilder lastEventID incomingVersion incomingTimestamp w =
     (let w1 = IncCounter r ReplicateHistoryEventsScope HistoryConflictsCounter w
      in case conflictResolutionTerminateCurrentRunningIfNotSelf n r msBuilder incomingVersion
                incomingTimestamp w1 of
        None \<Rightarrow> None
      | Some (Inl err, w2) \<Rightarrow> Some (Inl err, w2)
      | Some (Inr currentRunID, w2) \<Rightarrow>
          (case uuid_New r w2 of
             (requestID, w3) \<Rightarrow>
               Some (resolver_reset r ctx currentRunID requestID lastEventID
                       (GetExecutionInfo msBuilder) w3)))"

text \<open>
  \<^verbatim>\<open>ApplyOtherEventsVersionChecking\<close>. The result is
  \<open>((returned, msBuilder), world)\<close>: \<open>returned\<close> is the pair the Go function returns
  (\<open>Inr None\<close> is \<^verbatim>\<open>nil, nil\<close>: the batch is dropped) and \<open>msBuilder\<close> is the mutable state
  that was passed in, as the function leaves it. \<open>resetTo\<close> is the shared tail
  \<^verbatim>\<open>return r.resetMutableState(...)\<close> of the three reset branches, which read the last
  event of the batch first.
\<close>

definition resetTo ::
  "nat \<Rightarrow> 'w historyReplicator \<Rightarrow> workflowExecutionContext \<Rightarrow> mutableState \<Rightarrow> int \<Rightarrow> int \<Rightarrow> int
     \<Rightarrow> 'w \<Rightarrow> (((error + mutableState option) \<times> mutableState) \<times> 'w) option" where
  "resetTo n r ctx msBuilder lastEventID version timestamp w =
     (case resetMutableState n r ctx msBuilder lastEventID version timestamp w of
        None \<Rightarrow> None
      | Some (Inl err, w1) \<Rightarrow> Some ((Inl err, msBuilder), w1)
      | Some (Inr ms1, w1) \<Rightarrow> Some ((Inr (Some ms1), msBuilder), w1))"

definition ApplyOtherEventsVersionChecking ::
  "nat \<Rightarrow> 'w historyReplicator \<Rightarrow> workflowExecutionContext \<Rightarrow> mutableState
     \<Rightarrow> ReplicateEventsRequest \<Rightarrow> bool \<Rightarrow> 'w
     \<Rightarrow> (((error + mutableState option) \<times> mutableState) \<times> 'w) option" where
  "ApplyOtherEventsVersionChecking n r ctx msBuilder request inRetry w =
     (let incomingVersion = req_Version request;
          replicationInfo = req_ReplicationInfo request;
          rState = GetReplicationState msBuilder
      in
      if LastWriteVersion rState > incomingVersion then
        (let w1 = IncCounter r ReplicateHistoryEventsScope StaleReplicationEventsCounter w
         in case garbageCollectSignals r ctx msBuilder (History request) w1 of
           (((applied, err), ms1), w2) \<Rightarrow>
             Some (((case err of None \<Rightarrow> Inr None | Some e \<Rightarrow> Inl e), ms1), w2))
      else if LastWriteVersion rState = incomingVersion then
        Some ((Inr (Some msBuilder), msBuilder), w)
      else
        (let previousActiveCluster =
               ClusterNameForFailoverVersion (clusterMetadata r) (LastWriteVersion rState)
         in
         if previousActiveCluster \<noteq> GetCurrentClusterName (clusterMetadata r) then
           (case canDoDCMigration r (getDomainID ctx) w of
              (Inl err, w1) \<Rightarrow> Some ((Inl err, msBuilder), w1)
            | (Inr doDCMigration, w1) \<Rightarrow>
                if IsVersionFromSameCluster (clusterMetadata r) incomingVersion
                     (LastWriteVersion rState) \<and> \<not> doDCMigration
                then Some ((Inr (Some msBuilder), msBuilder), w1)
                else if EnableDCMigration (GetConfig (shard r)) (dynamicConfig r w1)
                        \<and> doDCMigration \<and> inRetry
                then Some ((Inr (Some msBuilder), msBuilder), w1)
                else if EnableDCMigration (GetConfig (shard r)) (dynamicConfig r w1)
                        \<and> doDCMigration
                then
                  (case getLastMatchEventID r ctx msBuilder request w1 of
                     (Inl err, w2) \<Rightarrow> Some ((Inl err, msBuilder), w2)
                   | (Inr expectedLastEventID, w2) \<Rightarrow>
                       if expectedLastEventID < LastWriteEventID (GetReplicationState msBuilder)
                       then
                         (if History request = []
                          then Some ((Inl (Panic ''index out of range''), msBuilder), w2)
                          else
                            (let lastEvent = last (History request)
                             in resetTo n r ctx msBuilder expectedLastEventID
                                  (ev_Version lastEvent) (ev_Timestamp lastEvent) w2))
                       else Some ((Inr (Some msBuilder), msBuilder), w2))
                else Some ((Inl ErrMoreThan2DC, msBuilder), w1))
         else
           (let ri = map_of replicationInfo previousActiveCluster
            in
            if (case ri of None \<Rightarrow> True | Some i \<Rightarrow> LastWriteVersion rState > ri_Version i) then
              (case getLatestCheckpoint r replicationInfo (LastReplicationInfo rState) of
                 (lastValidVersion, lastValidEventID) \<Rightarrow>
                   if lastValidVersion = EmptyVersion (cst r)
                   then Some ((Inl ErrImpossibleLocalRemoteMissingReplicationInfo, msBuilder), w)
                   else if History request = []
                   then Some ((Inl (Panic ''index out of range''), msBuilder), w)
                   else
                     (let lastEvent = last (History request);
                          incomingTimestamp = ev_Timestamp lastEvent
                      in resetTo n r ctx msBuilder lastValidEventID incomingVersion
                           incomingTimestamp w))
            else if (case ri of None \<Rightarrow> False | Some i \<Rightarrow> LastWriteVersion rState < ri_Version i)
            then Some ((Inl ErrImpossibleRemoteClaimSeenHigherVersion, msBuilder), w)
            else if (case ri of None \<Rightarrow> False
                     | Some i \<Rightarrow> ri_LastEventId i > LastWriteEventID rState)
            then Some ((Inl ErrCorruptedReplicationInfo, msBuilder), w)
            else
              (case flushEventsBuffer r ctx msBuilder w of
                 ((Some err, ms1), w1) \<Rightarrow> Some ((Inl err, ms1), w1)
               | ((None, ms1), w1) \<Rightarrow>
                   if (case ri of None \<Rightarrow> False
                       | Some i \<Rightarrow> ri_LastEventId i < LastWriteEventID (GetReplicationState ms1))
                      \<or> HasBufferedEvents ms1
                   then
                     (if History request = []
                      then Some ((Inl (Panic ''index out of range''), ms1), w1)
                      else
                        (let lastEvent = last (History request);
                             incomingTimestamp = ev_Timestamp lastEvent
                         in resetTo n r ctx ms1
                              (case ri of None \<Rightarrow> 0 | Some i \<Rightarrow> ri_LastEventId i)
                              incomingVersion incomingTimestamp w1))
                   else Some ((Inr (Some ms1), ms1), w1)))))"

subsection \<open>Ordered apply and buffering\<close>

definition ApplyOtherEvents ::
  "nat \<Rightarrow> 'w historyReplicator \<Rightarrow> workflowExecutionContext \<Rightarrow> mutableState
     \<Rightarrow> ReplicateEventsRequest \<Rightarrow> 'w \<Rightarrow> ((error option \<times> mutableState) \<times> 'w) option" where
  "ApplyOtherEvents n r ctx msBuilder request w =
     (let firstEventID = FirstEventId request
      in
      if firstEventID < GetNextEventID msBuilder then
        Some ((None, msBuilder),
              IncCounter r ReplicateHistoryEventsScope DuplicateReplicationEventsCounter w)
      else if firstEventID > GetNextEventID msBuilder then
        (if \<not> IsWorkflowExecutionRunning msBuilder then Some ((None, msBuilder), w)
         else if \<not> ForceBufferEvents request then
           Some ((Some (newRetryTaskErrorWithHint ErrRetryBufferEventsMsg (getDomainID ctx)
                          (WorkflowId (getExecution ctx)) (RunId (getExecution ctx))
                          (GetNextEventID msBuilder)), msBuilder), w)
         else
           (let w1 = RecordTimer r ReplicateHistoryEventsScope BufferReplicationTaskTimer
                       (int (length (History request))) w
            in
            if (case map_of (GetAllBufferedReplicationTasks msBuilder) (FirstEventId request) of
                  None \<Rightarrow> False
                | Some bt \<Rightarrow> bt_Version bt \<ge> req_Version request)
            then Some ((None, msBuilder), w1)
            else
              (case BufferReplicationTask (msOps r) request msBuilder of
                 (Some err, ms1) \<Rightarrow> Some ((Some err, ms1), w1)
               | (None, ms1) \<Rightarrow> Some (updateMutableStateOnly r ctx ms1 w1))))
      else
        (case ApplyReplicationTask n r ctx msBuilder request w of
           None \<Rightarrow> None
         | Some ((Some err, ms1), w1) \<Rightarrow> Some ((Some err, ms1), w1)
         | Some ((None, ms1), w1) \<Rightarrow> flushReplicationBuffer n r ctx ms1 w1))"

subsection \<open>SyncActivity\<close>

text \<open>
  The last part of \<^verbatim>\<open>SyncActivity\<close> (lines 569 to 591): the update of the activity
  with the flag \<open>resetActivityTimerTaskStatus\<close> and the refresh of its timer.
\<close>

definition syncActivityUpdate ::
  "'w historyReplicator \<Rightarrow> workflowExecutionContext \<Rightarrow> mutableState \<Rightarrow> SyncActivityRequest
     \<Rightarrow> bool \<Rightarrow> 'w \<Rightarrow> error option \<times> 'w" where
  "syncActivityUpdate r ctx msBuilder request resetActivityTimerTaskStatus w =
     (case ReplicateActivityInfo (msOps r) request resetActivityTimerTaskStatus msBuilder of
        (Some err, ms1) \<Rightarrow> (Some err, w)
      | (None, ms1) \<Rightarrow>
          (let eventTime0 = sa_ScheduledTime request;
               eventTime1 =
                 (if eventTime0 < sa_StartedTime request then sa_StartedTime request
                  else eventTime0);
               eventTime =
                 (if eventTime1 < sa_LastHeartbeatTime request then sa_LastHeartbeatTime request
                  else eventTime1);
               now = eventTime
           in case GetActivityTimerTaskIfNeeded (msOps r) now ms1 of
             (tt, ms2) \<Rightarrow>
               (let timerTasks = (case tt of None \<Rightarrow> [] | Some t \<Rightarrow> [t])
                in case updateMutableStateWithTimer r ctx ms2 now timerTasks w of
                  ((err, ms3), w1) \<Rightarrow> (err, w1))))"

definition SyncActivity ::
  "'w historyReplicator \<Rightarrow> SyncActivityRequest \<Rightarrow> 'w \<Rightarrow> error option \<times> 'w" where
  "SyncActivity r request w =
     (let domainID = sa_DomainId request;
          execution = \<lparr> WorkflowId = sa_WorkflowId request, RunId = sa_RunId request \<rparr>
      in case getOrCreateWorkflowExecutionWithTimeout (historyCache r) domainID execution w of
        (Inl err, w1) \<Rightarrow> (Some err, w1)
      | (Inr ctx, w1) \<Rightarrow>
          (case
             (case loadWorkflowExecution (ctxOps r) ctx w1 of
                (Inl err, w2) \<Rightarrow>
                  if \<not> isEntityNotExistsError err then (Some err, w2) else (None, w2)
              | (Inr msBuilder, w2) \<Rightarrow>
                  if \<not> IsWorkflowExecutionRunning msBuilder then (None, w2)
                  else
                    (let version = sa_Version request;
                         scheduleID = sa_ScheduledId request
                     in
                     if scheduleID \<ge> GetNextEventID msBuilder then
                       (if version < GetLastWriteVersion msBuilder then (None, w2)
                        else (Some (newRetryTaskErrorWithHint ErrRetrySyncActivityMsg domainID
                                      (WorkflowId execution) (RunId execution)
                                      (GetNextEventID msBuilder)), w2))
                     else
                       (case GetActivityInfo msBuilder scheduleID of
                          None \<Rightarrow> (None, w2)
                        | Some ai \<Rightarrow>
                            if ai_Version ai > sa_Version request then (None, w2)
                            else if ai_Version ai = sa_Version request
                                    \<and> ai_Attempt ai > sa_Attempt request
                            then (None, w2)
                            else if ai_Version ai = sa_Version request
                                    \<and> ai_Attempt ai = sa_Attempt request
                                    \<and> ai_LastHeartBeatUpdatedTime ai > sa_LastHeartbeatTime request
                            then (None, w2)
                            else
                              (let resetActivityTimerTaskStatus =
                                     (if \<not> IsVersionFromSameCluster (clusterMetadata r)
                                             (sa_Version request) (ai_Version ai)
                                      then True
                                      else if ai_Attempt ai < sa_Attempt request then True
                                      else False)
                               in syncActivityUpdate r ctx msBuilder request
                                    resetActivityTimerTaskStatus w2)))) of
             (retError, w3) \<Rightarrow> (retError, release (historyCache r) ctx retError w3)))"

subsection \<open>The entry points\<close>

definition ApplyStartEvent ::
  "nat \<Rightarrow> 'w historyReplicator \<Rightarrow> workflowExecutionContext \<Rightarrow> ReplicateEventsRequest \<Rightarrow> 'w
     \<Rightarrow> (error option \<times> 'w) option" where
  "ApplyStartEvent n r ctx request w =
     (let msBuilder = getNewMutableState r (req_Version request)
      in case ApplyReplicationTask n r ctx msBuilder request w of
           None \<Rightarrow> None
         | Some ((err, ms1), w1) \<Rightarrow> Some (err, w1))"

definition ApplyOtherEventsMissingMutableState ::
  "nat \<Rightarrow> 'w historyReplicator \<Rightarrow> string \<Rightarrow> string \<Rightarrow> string \<Rightarrow> int \<Rightarrow> int
     \<Rightarrow> ReplicateEventsRequest \<Rightarrow> 'w \<Rightarrow> (error option \<times> 'w) option" where
  "ApplyOtherEventsMissingMutableState n r domainID workflowID runID incomingVersion
       incomingTimestamp request w =
     (case getCurrentWorkflowMutableState r domainID workflowID w of
        (Inl err, w1) \<Rightarrow>
          if \<not> isEntityNotExistsError err then Some (Some err, w1)
          else Some (Some (newRetryTaskErrorWithHint ErrWorkflowNotFoundMsg domainID workflowID
                             runID (FirstEventID (cst r))), w1)
      | (Inr (currentContext, currentMutableState), w1) \<Rightarrow>
          (let currentRunID = RunID (GetExecutionInfo currentMutableState);
               currentLastWriteVersion = GetLastWriteVersion currentMutableState;
               w2 = release (historyCache r) currentContext None w1
           in
           if currentLastWriteVersion > incomingVersion then
             Some (None,
                   IncCounter r ReplicateHistoryEventsScope StaleReplicationEventsCounter w2)
           else if currentLastWriteVersion < incomingVersion \<and> \<not> ResetWorkflow request then
             (case terminateWorkflow n r domainID workflowID currentRunID incomingVersion
                     incomingTimestamp w2 of
                None \<Rightarrow> None
              | Some (Some err, w3) \<Rightarrow>
                  if \<not> isEntityNotExistsError err then Some (Some err, w3)
                  else Some (Some (newRetryTaskErrorWithHint ErrWorkflowNotFoundMsg domainID
                                     workflowID runID (FirstEventID (cst r))), w3)
              | Some (None, w3) \<Rightarrow>
                  Some (Some (newRetryTaskErrorWithHint ErrWorkflowNotFoundMsg domainID
                                workflowID runID (FirstEventID (cst r))), w3))
           else
             (case flushCurrentWorkflowBuffer n r domainID workflowID w2 of
                None \<Rightarrow> None
              | Some (Inl err, w3) \<Rightarrow> Some (Some err, w3)
              | Some (Inr (currentRunID1, currentNextEventID, currentStillRunning), w3) \<Rightarrow>
                  if currentStillRunning then
                    Some (Some (newRetryTaskErrorWithHint ErrWorkflowNotFoundMsg domainID
                                  workflowID currentRunID1 currentNextEventID), w3)
                  else if ResetWorkflow request then
                    Some (ApplyResetEvent r request domainID workflowID currentRunID1 w3)
                  else
                    Some (Some (newRetryTaskErrorWithHint ErrWorkflowNotFoundMsg domainID
                                  workflowID runID (FirstEventID (cst r))), w3))))"

text \<open>The first deferred function of \<^verbatim>\<open>ApplyEvents\<close>, which runs last.\<close>

fun translateError :: "error \<Rightarrow> error" where
  "translateError (EntityNotExistsError m) = ErrRetryEntityNotExists"
| "translateError (SharedWorkflowExecutionAlreadyStartedError m) =
     ErrRetryExecutionAlreadyStarted"
| "translateError (WorkflowExecutionAlreadyStartedError runID state lastWriteVersion) =
     ErrRetryExecutionAlreadyStarted"
| "translateError (InternalFailureError m) = ErrInternalFailure"
| "translateError e = e"

text \<open>
  The \<^verbatim>\<open>switch\<close> of \<^verbatim>\<open>ApplyEvents\<close> on the type of the first event, with the context
  acquired.
\<close>

definition applyEventsSwitch ::
  "nat \<Rightarrow> 'w historyReplicator \<Rightarrow> string \<Rightarrow> workflowExecutionContext \<Rightarrow> ReplicateEventsRequest
     \<Rightarrow> bool \<Rightarrow> 'w \<Rightarrow> (error option \<times> 'w) option" where
  "applyEventsSwitch n r domainID ctx request inRetry w =
     (let firstEvent = hd (History request)
      in
      if ev_EventType firstEvent = EventTypeWorkflowExecutionStarted then
        (case loadWorkflowExecution (ctxOps r) ctx w of
           (Inr ms, w1) \<Rightarrow>
             Some (None, IncCounter r ReplicateHistoryEventsScope
                           DuplicateReplicationEventsCounter w1)
         | (Inl err, w1) \<Rightarrow>
             if \<not> isEntityNotExistsError err then Some (Some err, w1)
             else ApplyStartEvent n r ctx request w1)
      else
        (case loadWorkflowExecution (ctxOps r) ctx w of
           (Inl err, w1) \<Rightarrow>
             if \<not> isEntityNotExistsError err then Some (Some err, w1)
             else
               (let w2 = release (historyCache r) ctx (Some err) w1;
                    lastEvent = last (History request)
                in ApplyOtherEventsMissingMutableState n r domainID
                     (WorkflowId (req_WorkflowExecution request))
                     (RunId (req_WorkflowExecution request))
                     (ev_Version firstEvent) (ev_Timestamp lastEvent) request w2)
         | (Inr msBuilder, w1) \<Rightarrow>
             (case flushReplicationBuffer n r ctx msBuilder w1 of
                None \<Rightarrow> None
              | Some ((Some err, ms1), w2) \<Rightarrow> Some (Some err, w2)
              | Some ((None, ms1), w2) \<Rightarrow>
                  (case ApplyOtherEventsVersionChecking n r ctx ms1 request inRetry w2 of
                     None \<Rightarrow> None
                   | Some ((Inl err, ms2), w3) \<Rightarrow> Some (Some err, w3)
                   | Some ((Inr None, ms2), w3) \<Rightarrow> Some (None, w3)
                   | Some ((Inr (Some ms3), ms2), w3) \<Rightarrow>
                       (case ApplyOtherEvents n r ctx ms3 request w3 of
                          None \<Rightarrow> None
                        | Some ((err, ms4), w4) \<Rightarrow> Some (err, w4))))))"

text \<open>
  \<^verbatim>\<open>ApplyEvents\<close>. The request and its history are present (with a nil history the first
  statement, which reads its length, panics); its two deferred functions run after the
  body, the release of the context first.
\<close>

definition ApplyEvents ::
  "nat \<Rightarrow> 'w historyReplicator \<Rightarrow> ReplicateEventsRequest \<Rightarrow> bool \<Rightarrow> 'w
     \<Rightarrow> (error option \<times> 'w) option" where
  "ApplyEvents n r request inRetry w =
     (let w0 = RecordTimer r ReplicateHistoryEventsScope ReplicationEventsSizeTimer
                 (int (length (History request))) w
      in
      map_option (\<lambda>(retError, w'). (map_option translateError retError, w'))
        (if length (History request) = 0 then
           Some (None, IncCounter r ReplicateHistoryEventsScope EmptyReplicationEventsCounter w0)
         else
           case validateDomainUUID r (DomainUUID request) of
             Inl err \<Rightarrow> Some (Some err, w0)
           | Inr domainID \<Rightarrow>
               (let execution = req_WorkflowExecution request
                in case getOrCreateWorkflowExecutionWithTimeout (historyCache r) domainID
                          execution w0 of
                     (Inl err, w1) \<Rightarrow> Some (Some err, w1)
                   | (Inr ctx, w1) \<Rightarrow>
                       map_option
                         (\<lambda>(retError, w'). (retError, release (historyCache r) ctx retError w'))
                         (applyEventsSwitch n r domainID ctx request inRetry w1))))"

definition ApplyRawEvents ::
  "nat \<Rightarrow> 'w historyReplicator \<Rightarrow> ReplicateRawEventsRequest \<Rightarrow> 'w
     \<Rightarrow> (error option \<times> 'w) option" where
  "ApplyRawEvents n r requestIn w =
     (case deserializeBlob r (raw_History requestIn) w of
        (Inl err, w1) \<Rightarrow> Some (Some err, w1)
      | (Inr events, w1) \<Rightarrow>
          (let version = ev_Version (hd events);
               firstEventID = ev_EventId (hd events);
               nextEventID = wrap64 (ev_EventId (last events) + 1);
               sourceCluster = ClusterNameForFailoverVersion (clusterMetadata r) version;
               requestOut =
                 \<lparr> SourceCluster = sourceCluster,
                   DomainUUID = raw_DomainUUID requestIn,
                   req_WorkflowExecution = raw_WorkflowExecution requestIn,
                   FirstEventId = firstEventID,
                   NextEventId = nextEventID,
                   req_Version = version,
                   req_ReplicationInfo = raw_ReplicationInfo requestIn,
                   History = events,
                   NewRunHistory = None,
                   EventStoreVersion = raw_EventStoreVersion requestIn,
                   NewRunEventStoreVersion = 0,
                   ForceBufferEvents = True,
                   ResetWorkflow = False \<rparr>
           in
           case raw_NewRunHistory requestIn of
             None \<Rightarrow> ApplyEvents n r requestOut True w1
           | Some blob \<Rightarrow>
               (case deserializeBlob r blob w1 of
                  (Inl err, w2) \<Rightarrow> Some (Some err, w2)
                | (Inr newRunEvents, w2) \<Rightarrow>
                    ApplyEvents n r
                      (requestOut\<lparr>NewRunHistory := Some newRunEvents,
                                  NewRunEventStoreVersion :=
                                    raw_NewRunEventStoreVersion requestIn\<rparr>)
                      True w2)))"

subsection \<open>Conditions under which the flush of the buffer returns\<close>



section \<open>A reference instance of the collaborators\<close>

text \<open>
  The theorems below hold for every replicator record. To run the definitions on
  concrete inputs, \<open>sim\<close> is one instance: its world is the list of the calls made to
  the collaborators, in order, and its answers are fixed by a \<open>simulation\<close>: the
  mutable states the cache loads (by run id), the run id of the current run, the answer
  of \<^verbatim>\<open>CreateWorkflowExecution\<close> for each mode, and the state of the dynamic-config
  source. Versions that are multiples of ten belong to cluster \<open>active\<close>, the current
  one; all others to \<open>standby\<close>.
\<close>

datatype effect =
    Counter MetricName
  | Timer MetricName int
  | NextTransferTaskID
  | AppendV2 string "int list"
  | AppendV1 string "int list"
  | Create CreateWorkflowMode string int
  | DeleteBranch string
  | DeleteExecutionHistory string WorkflowExecution
  | CurrentExecution string string
  | CurrentTime string int
  | NewTransferTasks string "Task list"
  | NewTimers string int "Task list"
  | Acquire string WorkflowExecution
  | Release WorkflowExecution "error option"
  | Load WorkflowExecution
  | UpdateExecution WorkflowExecution int
  | UpdateHelper WorkflowExecution int "Task list" int string
  | ReplicateExecution WorkflowExecution int
  | AppendContinueAsNew WorkflowExecution
  | Deserialize string
  | ApplyEventIds "int list"
  | NewUUID
  | Reset string int
  | LastMatchEventID
  | DomainLookup string
  | TaskInfo int int
  | ResetEvent string

record simulation =
  sim_store :: "string \<Rightarrow> mutableState option"
  sim_currentRun :: string
  sim_create :: "CreateWorkflowMode \<Rightarrow> error option"
  sim_dc :: dcState

definition simConstants :: constants where
  "simConstants =
     \<lparr> EmptyVersion = - 24, EmptyEventID = - 23, FirstEventID = 1, EventStoreVersionV2 = 2,
       identityHistoryService = ''history-service'' \<rparr>"

definition simMetadata :: Metadata where
  "simMetadata =
     \<lparr> ClusterNameForFailoverVersion = (\<lambda>v. if v mod 10 = 0 then ''active'' else ''standby''),
       GetCurrentClusterName = ''active'',
       IsVersionFromSameCluster = (\<lambda>v1 v2. (v1 - v2) mod 10 = 0) \<rparr>"

definition simState :: mutableState where
  "simState =
     \<lparr> IsWorkflowExecutionRunning = True,
       GetNextEventID = 1,
       GetLastWriteVersion = 0,
       GetCurrentVersion = 0,
       GetReplicationState =
         \<lparr> CurrentVersion = 0, StartVersion = 0, LastWriteVersion = 0, LastWriteEventID = 0,
           LastReplicationInfo = [] \<rparr>,
       HasBufferedEvents = False,
       HasBufferedReplicationTasks = False,
       GetAllBufferedReplicationTasks = [],
       GetInFlightDecisionTask = None,
       GetActivityInfo = (\<lambda>scheduleID. None),
       GetExecutionInfo =
         \<lparr> DomainID = ''domain'', WorkflowID = ''wf'', RunID = ''run'', ParentDomainID = [],
           ParentWorkflowID = [], ParentRunID = [], InitiatedID = 0, CreateRequestID = ''create'',
           TaskList = ''tasklist'', WorkflowTypeName = ''type'', WorkflowTimeout = 60,
           DecisionTimeoutValue = 10 \<rparr>,
       GetEventStoreVersion = 0,
       GetCurrentBranch = [] \<rparr>"

definition simMsOps :: mutableStateOps where
  "simMsOps =
     \<lparr> UpdateReplicationStateVersion = (\<lambda>v forceUpdate ms. ms\<lparr>GetCurrentVersion := v\<rparr>),
       UpdateReplicationStateLastEventID =
         (\<lambda>clusterName v e ms.
            ms\<lparr>GetLastWriteVersion := v,
               GetReplicationState :=
                 (GetReplicationState ms)\<lparr>LastWriteVersion := v, LastWriteEventID := e\<rparr>\<rparr>),
       AddDecisionTaskFailedEvent =
         (\<lambda>scheduleID startedID cause identity ms.
            ms\<lparr>GetInFlightDecisionTask := None, HasBufferedEvents := False,
               GetNextEventID := GetNextEventID ms + 1\<rparr>),
       AddWorkflowExecutionSignaled =
         (\<lambda>signalName input identity ms.
            (Some \<lparr> ev_EventId = GetNextEventID ms, ev_Timestamp = 0,
                    ev_Version = GetCurrentVersion ms,
                    ev_EventType = EventTypeWorkflowExecutionSignaled,
                    WorkflowExecutionSignaledEventAttributes =
                      Some \<lparr> SignalName = signalName, Input = input, Identity = identity \<rparr>,
                    WorkflowExecutionTerminatedEventAttributes = None \<rparr>,
             ms\<lparr>GetNextEventID := GetNextEventID ms + 1\<rparr>)),
       BufferReplicationTask =
         (\<lambda>request ms.
            (None,
             ms\<lparr>HasBufferedReplicationTasks := True,
                GetAllBufferedReplicationTasks :=
                  (FirstEventId request,
                   \<lparr> bt_FirstEventID = FirstEventId request,
                     bt_NextEventID = NextEventId request,
                     bt_Version = req_Version request,
                     bt_History = History request,
                     bt_NewRunHistory = (case NewRunHistory request of None \<Rightarrow> [] | Some h \<Rightarrow> h),
                     bt_EventStoreVersion = EventStoreVersion request,
                     bt_NewRunEventStoreVersion = NewRunEventStoreVersion request \<rparr>)
                  # filter (\<lambda>kv. fst kv \<noteq> FirstEventId request)
                      (GetAllBufferedReplicationTasks ms)\<rparr>)),
       DeleteBufferedReplicationTask =
         (\<lambda>firstEventID ms.
            ms\<lparr>HasBufferedReplicationTasks :=
                 (filter (\<lambda>kv. fst kv \<noteq> firstEventID) (GetAllBufferedReplicationTasks ms) \<noteq> []),
               GetAllBufferedReplicationTasks :=
                 filter (\<lambda>kv. fst kv \<noteq> firstEventID) (GetAllBufferedReplicationTasks ms)\<rparr>),
       ReplicateActivityInfo =
         (\<lambda>request resetActivityTimerTaskStatus ms.
            (None,
             ms\<lparr>GetActivityInfo :=
                  (GetActivityInfo ms)
                    (sa_ScheduledId request \<mapsto>
                       \<lparr> ai_Version = sa_Version request,
                         ai_Attempt = sa_Attempt request,
                         ai_LastHeartBeatUpdatedTime = sa_LastHeartbeatTime request,
                         ai_TimerTaskStatus =
                           (if resetActivityTimerTaskStatus then 0
                            else case GetActivityInfo ms (sa_ScheduledId request) of
                                   None \<Rightarrow> 0
                                 | Some ai \<Rightarrow> ai_TimerTaskStatus ai) \<rparr>)\<rparr>)),
       SetLastFirstEventID = (\<lambda>firstEventID ms. ms),
       SetNextEventID = (\<lambda>nextEventID ms. ms\<lparr>GetNextEventID := nextEventID\<rparr>),
       GetActivityTimerTaskIfNeeded = (\<lambda>now ms. (None, ms)) \<rparr>"

definition simShard :: "simulation \<Rightarrow> effect list ShardContext" where
  "simShard sc =
     \<lparr> GetConfig = NewConfig NewCollection 4 False,
       GetNextTransferTaskID = (\<lambda>w. (Inr (int (length w)), w @ [NextTransferTaskID])),
       AppendHistoryV2Events =
         (\<lambda>request domainID w.
            (Inr (int (length (ahn_Events request))),
             w @ [AppendV2 (ahn_BranchToken request) (map ev_EventId (ahn_Events request))])),
       AppendHistoryEvents =
         (\<lambda>request w.
            (Inr (int (length (ahe_Events request))),
             w @ [AppendV1 (RunId (ahe_Execution request)) (map ev_EventId (ahe_Events request))])),
       CreateWorkflowExecution =
         (\<lambda>request w.
            (sim_create sc (cw_CreateWorkflowMode request),
             w @ [Create (cw_CreateWorkflowMode request) (cw_PreviousRunID request)
                    (cw_PreviousLastWriteVersion request)])),
       DeleteHistoryBranch = (\<lambda>branchToken w. w @ [DeleteBranch branchToken]),
       DeleteWorkflowExecutionHistory =
         (\<lambda>domainID execution w. w @ [DeleteExecutionHistory domainID execution]),
       GetCurrentExecution =
         (\<lambda>domainID workflowID w.
            (Inr (sim_currentRun sc,
                  (case sim_store sc (sim_currentRun sc) of
                     None \<Rightarrow> WorkflowCloseStatusNone
                   | Some ms \<Rightarrow>
                       if IsWorkflowExecutionRunning ms then WorkflowCloseStatusNone
                       else WorkflowCloseStatusClosed 1)),
             w @ [CurrentExecution domainID workflowID])),
       SetCurrentTime = (\<lambda>clusterName t w. w @ [CurrentTime clusterName t]) \<rparr>"

definition simEngine :: "effect list historyEngineImpl" where
  "simEngine =
     \<lparr> NotifyNewTask = (\<lambda>clusterName tasks w. w @ [NewTransferTasks clusterName tasks]),
       NotifyNewTimers = (\<lambda>clusterName t tasks w. w @ [NewTimers clusterName t tasks]) \<rparr>"

definition simCache :: "simulation \<Rightarrow> effect list historyCache" where
  "simCache sc =
     \<lparr> getOrCreateWorkflowExecutionWithTimeout =
         (\<lambda>domainID execution w.
            (Inr \<lparr> getDomainID = domainID,
                   getExecution =
                     (if RunId execution = [] then execution\<lparr>RunId := sim_currentRun sc\<rparr>
                      else execution) \<rparr>,
             w @ [Acquire domainID execution])),
       release = (\<lambda>ctx err w. w @ [Release (getExecution ctx) err]) \<rparr>"

definition simContext :: "simulation \<Rightarrow> effect list contextOps" where
  "simContext sc =
     \<lparr> loadWorkflowExecution =
         (\<lambda>ctx w.
            ((case sim_store sc (RunId (getExecution ctx)) of
                None \<Rightarrow> Inl (EntityNotExistsError ''no execution'')
              | Some ms \<Rightarrow> Inr ms),
             w @ [Load (getExecution ctx)])),
       updateWorkflowExecution =
         (\<lambda>ctx ms transactionID w.
            ((None,
              ms\<lparr>GetReplicationState :=
                   (GetReplicationState ms)\<lparr>LastWriteEventID := GetNextEventID ms - 1\<rparr>\<rparr>),
             w @ [UpdateExecution (getExecution ctx) (GetNextEventID ms)])),
       updateHelper =
         (\<lambda>ctx ms timerTasks transactionID now sourceCluster w.
            ((None, ms),
             w @ [UpdateHelper (getExecution ctx) (GetNextEventID ms) timerTasks now
                    sourceCluster])),
       replicateWorkflowExecution =
         (\<lambda>ctx ms request transferTasks timerTasks lastEventID transactionID now w.
            ((None, ms), w @ [ReplicateExecution (getExecution ctx) lastEventID])),
       appendFirstBatchHistoryForContinueAsNew =
         (\<lambda>ctx ms newRunStateBuilder transactionID w.
            ((None, ms), w @ [AppendContinueAsNew (getExecution ctx)])) \<rparr>"

definition sim :: "simulation \<Rightarrow> effect list historyReplicator" where
  "sim sc =
     \<lparr> shard = simShard sc,
       historyEngine = simEngine,
       historyCache = simCache sc,
       clusterMetadata = simMetadata,
       ctxOps = simContext sc,
       msOps = simMsOps,
       cst = simConstants,
       dynamicConfig = (\<lambda>w. sim_dc sc),
       GetDomainByID = (\<lambda>domainID w. (Inr [''active'', ''standby''], w @ [DomainLookup domainID])),
       DeserializeBatchEvents =
         (\<lambda>blob w.
            (Inr (map (\<lambda>c. \<lparr> ev_EventId = of_char c, ev_Timestamp = 0, ev_Version = 0,
                               ev_EventType = EventTypeOther 0,
                               WorkflowExecutionSignaledEventAttributes = None,
                               WorkflowExecutionTerminatedEventAttributes = None \<rparr>)
                    (blob_Data blob)),
             w @ [Deserialize (blob_Data blob)])),
       IncCounter = (\<lambda>scope name w. w @ [Counter name]),
       RecordTimer = (\<lambda>scope name d w. w @ [Timer name d]),
       uuid_New = (\<lambda>w. (''uuid'', w @ [NewUUID])),
       validateDomainUUID =
         (\<lambda>domainUUID. case domainUUID of
                          None \<Rightarrow> Inl (BadRequestError ''Missing domain UUID.'')
                        | Some d \<Rightarrow> Inr d),
       historyGarbageCleanupInfo = (\<lambda>domainID workflowID runID. domainID @ workflowID @ runID),
       setTaskInfo = (\<lambda>version t transferTasks timerTasks w. w @ [TaskInfo version t]),
       applyEvents =
         (\<lambda>ms domainID requestID execution events newRunEvents esv nresv w.
            ((Inr \<lparr> ap_lastEvent = last events, ap_di = None, ap_newRunStateBuilder = None,
                    ap_transferTasks = [], ap_timerTasks = [] \<rparr>,
              ms\<lparr>IsWorkflowExecutionRunning :=
                    (ev_EventType (last events) \<noteq> EventTypeWorkflowExecutionTerminated),
                 GetNextEventID := ev_EventId (last events) + 1\<rparr>),
             w @ [ApplyEventIds (map ev_EventId events)])),
       resolver_reset =
         (\<lambda>ctx currentRunID requestID lastEventID executionInfo w.
            (Inr (simState\<lparr>GetNextEventID := lastEventID + 1, GetExecutionInfo := executionInfo\<rparr>),
             w @ [Reset currentRunID lastEventID])),
       getLastMatchEventID = (\<lambda>ctx ms request w. (Inr 0, w @ [LastMatchEventID])),
       getNewMutableState =
         (\<lambda>version. simState\<lparr>GetCurrentVersion := version, GetLastWriteVersion := version\<rparr>),
       ApplyResetEvent =
         (\<lambda>request domainID workflowID currentRunID w. (None, w @ [ResetEvent currentRunID])) \<rparr>"

subsection \<open>Concrete inputs\<close>

definition simDefault :: simulation where
  "simDefault =
     \<lparr> sim_store = (\<lambda>runID. None), sim_currentRun = ''run'', sim_create = (\<lambda>mode. None),
       sim_dc = (\<lambda>keyName. None) \<rparr>"

definition otherEvent :: "int \<Rightarrow> HistoryEvent" where
  "otherEvent eventID =
     \<lparr> ev_EventId = eventID, ev_Timestamp = 0, ev_Version = 0, ev_EventType = EventTypeOther 0,
       WorkflowExecutionSignaledEventAttributes = None,
       WorkflowExecutionTerminatedEventAttributes = None \<rparr>"

definition signalEvent :: "int \<Rightarrow> HistoryEvent" where
  "signalEvent eventID =
     \<lparr> ev_EventId = eventID, ev_Timestamp = 0, ev_Version = 0,
       ev_EventType = EventTypeWorkflowExecutionSignaled,
       WorkflowExecutionSignaledEventAttributes =
         Some \<lparr> SignalName = ''signal'', Input = [], Identity = ''sender'' \<rparr>,
       WorkflowExecutionTerminatedEventAttributes = None \<rparr>"

definition simCtx :: workflowExecutionContext where
  "simCtx = \<lparr> getDomainID = ''domain'', getExecution = \<lparr> WorkflowId = ''wf'', RunId = ''run'' \<rparr> \<rparr>"

text \<open>A batch of version \<open>v\<close> holding the events \<open>events\<close>, which begins at event id \<open>first\<close>.\<close>

definition simRequest :: "int \<Rightarrow> int \<Rightarrow> HistoryEvent list \<Rightarrow> ReplicateEventsRequest" where
  "simRequest v first events =
     \<lparr> SourceCluster = ''standby'',
       DomainUUID = Some ''domain'',
       req_WorkflowExecution = \<lparr> WorkflowId = ''wf'', RunId = ''run'' \<rparr>,
       FirstEventId = first,
       NextEventId = first + int (length events),
       req_Version = v,
       req_ReplicationInfo = [],
       History = events,
       NewRunHistory = None,
       EventStoreVersion = 0,
       NewRunEventStoreVersion = 0,
       ForceBufferEvents = False,
       ResetWorkflow = False \<rparr>"

text \<open>The reference mutable state after a last write of version \<open>v\<close> at event id \<open>e\<close>.\<close>

definition simStateAt :: "int \<Rightarrow> int \<Rightarrow> mutableState" where
  "simStateAt v e =
     simState\<lparr>GetNextEventID := e + 1, GetLastWriteVersion := v, GetCurrentVersion := v,
              GetReplicationState :=
                \<lparr> CurrentVersion = v, StartVersion = 0, LastWriteVersion = v,
                  LastWriteEventID = e, LastReplicationInfo = [] \<rparr>\<rparr>"

definition simStore :: "mutableState \<Rightarrow> simulation" where
  "simStore ms = simDefault\<lparr>sim_store := (\<lambda>runID. if runID = ''run'' then Some ms else None)\<rparr>"


text \<open>The strict lexicographic order on triples (version, attempt, last heartbeat time).\<close>

definition lexLess3 :: "int \<times> int \<times> int \<Rightarrow> int \<times> int \<times> int \<Rightarrow> bool" where
  "lexLess3 a b =
     (case a of (av, aa, ah) \<Rightarrow>
        case b of (bv, ba, bh) \<Rightarrow> av < bv \<or> (av = bv \<and> (aa < ba \<or> (aa = ba \<and> ah < bh))))"


definition simActivity :: "mutableState" where
  "simActivity =
     (simStateAt 10 9)\<lparr>GetActivityInfo :=
        [7 \<mapsto> \<lparr> ai_Version = 10, ai_Attempt = 0, ai_LastHeartBeatUpdatedTime = 1000,
                 ai_TimerTaskStatus = 3 \<rparr>]\<rparr>"

definition simSync :: "int \<Rightarrow> int \<Rightarrow> int \<Rightarrow> SyncActivityRequest" where
  "simSync v attempt heartbeat =
     \<lparr> sa_DomainId = ''domain'', sa_WorkflowId = ''wf'', sa_RunId = ''run'', sa_Version = v,
       sa_ScheduledId = 7, sa_ScheduledTime = 900, sa_StartedTime = 950,
       sa_LastHeartbeatTime = heartbeat, sa_Attempt = attempt \<rparr>"

definition simInfo :: "int \<Rightarrow> int \<Rightarrow> ReplicationInfo" where
  "simInfo v e = \<lparr> ri_Version = v, ri_LastEventId = e \<rparr>"

text \<open>
  What a version check returned, with the next event id in place of the mutable state,
  and the calls it made.
\<close>

definition checked ::
  "(((error + mutableState option) \<times> mutableState) \<times> 'w) option
     \<Rightarrow> ((error + int option) \<times> 'w) option" where
  "checked res =
     map_option (\<lambda>x. (map_sum id (map_option GetNextEventID) (fst (fst x)), snd x)) res"

definition simDecision :: decisionInfo where
  "simDecision = \<lparr> di_Version = 10, di_ScheduleID = 4, di_StartedID = 5, di_DecisionTimeout = 10 \<rparr>"

definition startEvent :: "int \<Rightarrow> HistoryEvent" where
  "startEvent v =
     \<lparr> ev_EventId = 1, ev_Timestamp = 500, ev_Version = v,
       ev_EventType = EventTypeWorkflowExecutionStarted,
       WorkflowExecutionSignaledEventAttributes = None,
       WorkflowExecutionTerminatedEventAttributes = None \<rparr>"

text \<open>
  A simulation in which a brand-new create finds the run \<open>cur\<close>, in the given state and
  with the given last write version, and a create in reuse mode succeeds; the cache
  holds \<open>ms\<close> as the mutable state of \<open>cur\<close>.
\<close>

definition simStarted :: "WorkflowState \<Rightarrow> int \<Rightarrow> mutableState \<Rightarrow> simulation" where
  "simStarted st v ms =
     \<lparr> sim_store = (\<lambda>runID. if runID = ''cur'' then Some ms else None),
       sim_currentRun = ''cur'',
       sim_create =
         (\<lambda>mode. if mode = CreateWorkflowModeBrandNew
                  then Some (WorkflowExecutionAlreadyStartedError ''cur'' st v)
                  else None),
       sim_dc = (\<lambda>keyName. None) \<rparr>"



lemmas sim_defs = sim_def simCache_def simContext_def simStore_def simDefault_def simStateAt_def
  simState_def simMetadata_def simShard_def simEngine_def simMsOps_def simConstants_def simCtx_def
  simRequest_def simActivity_def simSync_def simInfo_def simDecision_def startEvent_def
  simStarted_def otherEvent_def signalEvent_def NewConfig_def NewCollection_def
  Key_String_def Minute_def wrap64_def zeroTime_def

section \<open>Properties\<close>

lemma wrap64_id: "- (2 ^ 63) \<le> x \<Longrightarrow> x < 2 ^ 63 \<Longrightarrow> wrap64 x = x"
  unfolding wrap64_def by (simp add: mod_pos_pos_trivial)

text \<open>
  The handler with fuel \<open>n + 1\<close> is \<open>replicateWorkflowStarted\<close> with fuel \<open>n\<close>, and
  \<open>ApplyReplicationTask\<close> does nothing on a workflow that is not running.
\<close>

lemma startWorkflowHandler_Suc:
  "startWorkflowHandler (Suc n) = replicateWorkflowStarted n"
  by (simp add: replicateWorkflowStarted_def)

lemma ApplyReplicationTask_not_running:
  "\<not> IsWorkflowExecutionRunning msBuilder
   \<Longrightarrow> ApplyReplicationTask n r ctx msBuilder request w = Some ((None, msBuilder), w)"
  by (simp add: ApplyReplicationTask_def ApplyReplicationTask_open_def)

text \<open>
  Claim C7. Decoding a raw-event blob fails with \<open>ErrUnknownEncodingType\<close> when the
  declared encoding is not thrift-rw, and then the world is the one before the call (the
  deserializer was not called and nothing else was done). Otherwise the deserializer is
  called on the data of the blob: when it fails, its error is returned as it is; when it
  yields the empty list, decoding fails with \<open>ErrEmptyHistoryRawEventBatch\<close>; when it
  yields a non-empty list, that list is returned as it is.
\<close>

theorem deserializeBlob_spec:
  "(blob_EncodingType blob \<noteq> EncodingTypeThriftRW \<longrightarrow>
      deserializeBlob r blob w = (Inl ErrUnknownEncodingType, w))
   \<and> (blob_EncodingType blob = EncodingTypeThriftRW \<longrightarrow>
        DeserializeBatchEvents r
          \<lparr> blob_EncodingType = EncodingTypeThriftRW, blob_Data = blob_Data blob \<rparr> w = (Inl err, w') \<longrightarrow>
        deserializeBlob r blob w = (Inl err, w'))
   \<and> (blob_EncodingType blob = EncodingTypeThriftRW \<longrightarrow>
        DeserializeBatchEvents r
          \<lparr> blob_EncodingType = EncodingTypeThriftRW, blob_Data = blob_Data blob \<rparr> w = (Inr [], w') \<longrightarrow>
        deserializeBlob r blob w = (Inl ErrEmptyHistoryRawEventBatch, w'))
   \<and> (blob_EncodingType blob = EncodingTypeThriftRW \<longrightarrow>
        DeserializeBatchEvents r
          \<lparr> blob_EncodingType = EncodingTypeThriftRW, blob_Data = blob_Data blob \<rparr> w = (Inr events, w') \<longrightarrow>
        events \<noteq> [] \<longrightarrow>
        deserializeBlob r blob w = (Inr events, w'))"
  by (simp add: deserializeBlob_def)

text \<open>
  Claim C7 as stated leaves two failures only. Here the blob is declared thrift-rw and
  the deserializer rejects its bytes: decoding fails with the error of the deserializer,
  which is neither of the two, and no event list is returned.
\<close>

theorem deserializeBlob_error_counterexample:
  "blob_EncodingType \<lparr> blob_EncodingType = EncodingTypeThriftRW, blob_Data = ''ab'' \<rparr>
     = EncodingTypeThriftRW
   \<and> deserializeBlob
        ((sim simDefault)\<lparr>DeserializeBatchEvents :=
           (\<lambda>blob w. (Inl (OtherError ''cannot decode''), w @ [Deserialize (blob_Data blob)]))\<rparr>)
        \<lparr> blob_EncodingType = EncodingTypeThriftRW, blob_Data = ''ab'' \<rparr> []
     = (Inl (OtherError ''cannot decode''), [Deserialize ''ab''])
   \<and> OtherError ''cannot decode'' \<noteq> ErrUnknownEncodingType
   \<and> OtherError ''cannot decode'' \<noteq> ErrEmptyHistoryRawEventBatch"
  by (simp add: deserializeBlob_def sim_def ErrUnknownEncodingType_def
        ErrEmptyHistoryRawEventBatch_def)

theorem deserializeBlob_spec_witness:
  "deserializeBlob (sim simDefault) \<lparr> blob_EncodingType = EncodingTypeOther 1, blob_Data = ''ab'' \<rparr> []
     = (Inl ErrUnknownEncodingType, [])
   \<and> deserializeBlob
        ((sim simDefault)\<lparr>DeserializeBatchEvents :=
           (\<lambda>blob w. (Inl (OtherError ''cannot decode''), w @ [Deserialize (blob_Data blob)]))\<rparr>)
        \<lparr> blob_EncodingType = EncodingTypeThriftRW, blob_Data = ''ab'' \<rparr> []
     = (Inl (OtherError ''cannot decode''), [Deserialize ''ab''])
   \<and> deserializeBlob (sim simDefault) \<lparr> blob_EncodingType = EncodingTypeThriftRW, blob_Data = [] \<rparr> []
     = (Inl ErrEmptyHistoryRawEventBatch, [Deserialize []])
   \<and> deserializeBlob (sim simDefault) \<lparr> blob_EncodingType = EncodingTypeThriftRW, blob_Data = ''ab'' \<rparr> []
     = (Inr [otherEvent 97, otherEvent 98], [Deserialize ''ab''])"
  using deserializeBlob_spec [where r = "sim simDefault" and w = "[]"
          and blob = "\<lparr> blob_EncodingType = EncodingTypeOther 1, blob_Data = ''ab'' \<rparr>",
          THEN conjunct1]
        deserializeBlob_spec [where r = "(sim simDefault)\<lparr>DeserializeBatchEvents :=
           (\<lambda>blob w. (Inl (OtherError ''cannot decode''), w @ [Deserialize (blob_Data blob)]))\<rparr>"
          and w = "[]" and w' = "[Deserialize ''ab'']" and err = "OtherError ''cannot decode''"
          and blob = "\<lparr> blob_EncodingType = EncodingTypeThriftRW, blob_Data = ''ab'' \<rparr>",
          THEN conjunct2, THEN conjunct1]
        deserializeBlob_spec [where r = "sim simDefault" and w = "[]" and w' = "[Deserialize []]"
          and blob = "\<lparr> blob_EncodingType = EncodingTypeThriftRW, blob_Data = [] \<rparr>",
          THEN conjunct2, THEN conjunct2, THEN conjunct1]
        deserializeBlob_spec [where r = "sim simDefault" and w = "[]" and w' = "[Deserialize ''ab'']"
          and events = "[otherEvent 97, otherEvent 98]"
          and blob = "\<lparr> blob_EncodingType = EncodingTypeThriftRW, blob_Data = ''ab'' \<rparr>",
          THEN conjunct2, THEN conjunct2, THEN conjunct2]
  by (simp add: sim_def otherEvent_def)

text \<open>
  Claim C10. \<^verbatim>\<open>NewConfig\<close> builds \<open>StandbyClusterDelay\<close> from the key
  \<open>AcquireShardInterval\<close> with default five minutes, whatever the collection, and not from
  the key \<open>StandbyClusterDelay\<close> of the key table, whose name is another one. \<open>notify\<close>
  sets the standby clock and the timer notification to the event time minus the value of
  that property in the current state of the dynamic-config source. For the collection of
  the service that value is the duration registered under \<open>history.acquireShardInterval\<close>
  (five minutes when there is none), and registering any value under
  \<open>history.standbyClusterDelay\<close> does not change it.
\<close>

theorem standbyClusterDelay_follows_acquireShardInterval:
  "StandbyClusterDelay (NewConfig dc numberOfShards enableVisibilityToKafka)
     = GetDurationProperty dc Key_AcquireShardInterval (5 * Minute)
   \<and> Key_String Key_AcquireShardInterval = ''history.acquireShardInterval''
   \<and> Key_String Key_StandbyClusterDelay = ''history.standbyClusterDelay''
   \<and> (GetConfig (shard r) = NewConfig dc numberOfShards enableVisibilityToKafka \<longrightarrow>
        delay = GetDurationProperty dc Key_AcquireShardInterval (5 * Minute)
                  (dynamicConfig r w) \<longrightarrow>
        - (2 ^ 63) < delay \<longrightarrow> delay \<le> 2 ^ 63 \<longrightarrow>
        notify r clusterName now transferTasks timerTasks w
          = NotifyNewTimers (historyEngine r) clusterName (now - delay) timerTasks
              (NotifyNewTask (historyEngine r) clusterName transferTasks
                 (SetCurrentTime (shard r) clusterName (now - delay) w)))
   \<and> StandbyClusterDelay (NewConfig NewCollection numberOfShards enableVisibilityToKafka) st
       = (case st ''history.acquireShardInterval'' of
            Some (DurationValue d) \<Rightarrow> d
          | _ \<Rightarrow> 5 * Minute)
   \<and> StandbyClusterDelay (NewConfig NewCollection numberOfShards enableVisibilityToKafka)
         (st(''history.standbyClusterDelay'' := x))
       = StandbyClusterDelay (NewConfig NewCollection numberOfShards enableVisibilityToKafka) st"
proof -
  have key: "StandbyClusterDelay (NewConfig NewCollection numberOfShards enableVisibilityToKafka) s
       = (case s ''history.acquireShardInterval'' of
            Some (DurationValue d) \<Rightarrow> d
          | _ \<Rightarrow> 5 * Minute)" for s
    by (simp add: NewConfig_def NewCollection_def Key_String_def)
  have upd: "StandbyClusterDelay (NewConfig NewCollection numberOfShards enableVisibilityToKafka)
         (st(''history.standbyClusterDelay'' := x))
       = StandbyClusterDelay (NewConfig NewCollection numberOfShards enableVisibilityToKafka) st"
    by (simp add: key)
  have n: "notify r clusterName now transferTasks timerTasks w
          = NotifyNewTimers (historyEngine r) clusterName (now - delay) timerTasks
              (NotifyNewTask (historyEngine r) clusterName transferTasks
                 (SetCurrentTime (shard r) clusterName (now - delay) w))"
    if "GetConfig (shard r) = NewConfig dc numberOfShards enableVisibilityToKafka"
      and "delay = GetDurationProperty dc Key_AcquireShardInterval (5 * Minute)
                     (dynamicConfig r w)"
      and "- (2 ^ 63) < delay" and "delay \<le> 2 ^ 63"
  proof -
    have "wrap64 (- delay) = - delay"
      using that(3,4) by (intro wrap64_id) simp_all
    then show ?thesis
      using that(1,2) by (simp add: notify_def Let_def NewConfig_def)
  qed
  have names: "Key_String Key_AcquireShardInterval = ''history.acquireShardInterval''"
    "Key_String Key_StandbyClusterDelay = ''history.standbyClusterDelay''"
    by (simp_all add: Key_String_def)
  have built: "StandbyClusterDelay (NewConfig dc numberOfShards enableVisibilityToKafka)
     = GetDurationProperty dc Key_AcquireShardInterval (5 * Minute)"
    by (simp add: NewConfig_def)
  show ?thesis
    using key upd n names built by blast
qed

theorem standbyClusterDelay_follows_acquireShardInterval_witness:
  "notify (sim (simDefault\<lparr>sim_dc :=
              [''history.acquireShardInterval'' \<mapsto> DurationValue 7,
               ''history.standbyClusterDelay'' \<mapsto> DurationValue 1000]\<rparr>))
       ''standby'' 100 [] [] []
     = [CurrentTime ''standby'' 93, NewTransferTasks ''standby'' [], NewTimers ''standby'' 93 []]"
  using standbyClusterDelay_follows_acquireShardInterval
          [where r = "sim (simDefault\<lparr>sim_dc :=
              [''history.acquireShardInterval'' \<mapsto> DurationValue 7,
               ''history.standbyClusterDelay'' \<mapsto> DurationValue 1000]\<rparr>)"
             and dc = NewCollection
             and numberOfShards = 4 and enableVisibilityToKafka = False and w = "[]"
             and delay = 7 and clusterName = "''standby''" and now = 100
             and transferTasks = "[]" and timerTasks = "[]"]
  by (simp add: sim_def simShard_def simEngine_def simDefault_def NewCollection_def
        Key_String_def)

text \<open>
  Claim C8. Unless the workflow is running and the cluster of its last write version is
  the current cluster (\<open>canModifyWorkflow\<close>), both \<open>garbageCollectSignals\<close> and
  \<open>flushEventsBuffer\<close> return success and leave the mutable state and the world as they
  were; a stale batch is then dropped by the version check with nothing but the stale
  counter incremented, whatever signals it holds.
\<close>

theorem gc_and_flush_need_canModifyWorkflow:
  assumes "\<not> (IsWorkflowExecutionRunning msBuilder \<and> canModifyWorkflow r msBuilder)"
  shows "garbageCollectSignals r ctx msBuilder events w = (((False, None), msBuilder), w)
     \<and> flushEventsBuffer r ctx msBuilder w = ((None, msBuilder), w)
     \<and> (LastWriteVersion (GetReplicationState msBuilder) > req_Version request \<longrightarrow>
          ApplyOtherEventsVersionChecking n r ctx msBuilder request inRetry w =
            Some ((Inr None, msBuilder),
                  IncCounter r ReplicateHistoryEventsScope StaleReplicationEventsCounter w))"
  using assms
  by (auto simp add: garbageCollectSignals_def flushEventsBuffer_def
        ApplyOtherEventsVersionChecking_def Let_def)

theorem gc_and_flush_need_canModifyWorkflow_witness:
  "\<not> canModifyWorkflow (sim simDefault) (simStateAt 11 5)
   \<and> garbageCollectSignals (sim simDefault) simCtx (simStateAt 11 5) [signalEvent 3] []
       = (((False, None), simStateAt 11 5), [])
   \<and> flushEventsBuffer (sim simDefault) simCtx ((simStateAt 11 5)\<lparr>HasBufferedEvents := True\<rparr>) []
       = ((None, (simStateAt 11 5)\<lparr>HasBufferedEvents := True\<rparr>), [])
   \<and> ApplyOtherEventsVersionChecking 0 (sim simDefault) simCtx (simStateAt 11 5)
         (simRequest 10 3 [signalEvent 3]) False []
       = Some ((Inr None, simStateAt 11 5), [Counter StaleReplicationEventsCounter])"
proof -
  have a: "\<not> canModifyWorkflow (sim simDefault) (simStateAt 11 5)"
    by (simp add: canModifyWorkflow_def sim_def simMetadata_def simStateAt_def simState_def)
  have b: "\<not> canModifyWorkflow (sim simDefault) ((simStateAt 11 5)\<lparr>HasBufferedEvents := True\<rparr>)"
    by (simp add: canModifyWorkflow_def sim_def simMetadata_def simStateAt_def simState_def)
  have c: "LastWriteVersion (GetReplicationState (simStateAt 11 5))
             > req_Version (simRequest 10 3 [signalEvent 3])"
    by (simp add: simStateAt_def simState_def simRequest_def)
  have p1: "\<not> (IsWorkflowExecutionRunning (simStateAt 11 5)
                \<and> canModifyWorkflow (sim simDefault) (simStateAt 11 5))"
    using a by simp
  have p2: "\<not> (IsWorkflowExecutionRunning ((simStateAt 11 5)\<lparr>HasBufferedEvents := True\<rparr>)
                \<and> canModifyWorkflow (sim simDefault)
                     ((simStateAt 11 5)\<lparr>HasBufferedEvents := True\<rparr>))"
    using b by simp
  show ?thesis
    using a c
      gc_and_flush_need_canModifyWorkflow [OF p1, where ctx = simCtx
        and events = "[signalEvent 3]" and w = "[]"
        and request = "simRequest 10 3 [signalEvent 3]" and n = 0 and inRetry = False]
      gc_and_flush_need_canModifyWorkflow [OF p2, where ctx = simCtx and w = "[]"]
    by (simp add: sim_def)
qed

text \<open>A batch that does not begin with a start event is applied without using fuel.\<close>

lemma ApplyReplicationTask_open_returns:
  assumes "History request = [] \<or> ev_EventType (hd (History request)) \<noteq> EventTypeWorkflowExecutionStarted"
  shows "\<exists>res. ApplyReplicationTask_open h r ctx msBuilder request w = Some res"
  using assms
  by (auto simp add: ApplyReplicationTask_open_def Let_def
        split: sum.splits prod.splits option.splits EventType.splits)


















text \<open>
  Claim C9. Once the context of the target run is acquired and its mutable state
  loaded: when the run is not running, \<open>terminateWorkflow\<close> returns success having done
  nothing but release the context (no event is built or applied); when it is running,
  the one-event batch holding the \<open>WorkflowExecutionTerminated\<close> event with event id
  the run's next event id, the incoming version and timestamp and the fixed reason and
  identity is applied by \<open>ApplyReplicationTask\<close>, which returns, and its result is the
  result of \<open>terminateWorkflow\<close>.
\<close>

theorem terminateWorkflow_spec:
  assumes acq: "getOrCreateWorkflowExecutionWithTimeout (historyCache r) domainID
                  \<lparr> WorkflowId = workflowID, RunId = runID \<rparr> w = (Inr ctx, w')"
    and load: "loadWorkflowExecution (ctxOps r) ctx w' = (Inr msBuilder, w'')"
  shows "(\<not> IsWorkflowExecutionRunning msBuilder \<longrightarrow>
            terminateWorkflow n r domainID workflowID runID incomingVersion incomingTimestamp w
              = Some (None, release (historyCache r) ctx None w''))
     \<and> (IsWorkflowExecutionRunning msBuilder \<longrightarrow>
          (\<exists>err ms' wa.
             ApplyReplicationTask n r ctx msBuilder
               \<lparr> SourceCluster = ClusterNameForFailoverVersion (clusterMetadata r) incomingVersion,
                 DomainUUID = Some domainID,
                 req_WorkflowExecution = \<lparr> WorkflowId = workflowID, RunId = runID \<rparr>,
                 FirstEventId = GetNextEventID msBuilder,
                 NextEventId = wrap64 (GetNextEventID msBuilder + 1),
                 req_Version = incomingVersion,
                 req_ReplicationInfo = [],
                 History =
                   [\<lparr> ev_EventId = GetNextEventID msBuilder,
                      ev_Timestamp = incomingTimestamp,
                      ev_Version = incomingVersion,
                      ev_EventType = EventTypeWorkflowExecutionTerminated,
                      WorkflowExecutionSignaledEventAttributes = None,
                      WorkflowExecutionTerminatedEventAttributes =
                        Some \<lparr> term_Reason = workflowTerminationReason,
                               term_Identity = workflowTerminationIdentity,
                               term_Details = None \<rparr> \<rparr>],
                 NewRunHistory = None,
                 EventStoreVersion = 0,
                 NewRunEventStoreVersion = 0,
                 ForceBufferEvents = False,
                 ResetWorkflow = False \<rparr> w'' = Some ((err, ms'), wa)
             \<and> terminateWorkflow n r domainID workflowID runID incomingVersion incomingTimestamp w
                 = Some (err, release (historyCache r) ctx err wa)))"
proof (intro conjI impI)
  assume "\<not> IsWorkflowExecutionRunning msBuilder"
  then show "terminateWorkflow n r domainID workflowID runID incomingVersion incomingTimestamp w
              = Some (None, release (historyCache r) ctx None w'')"
    using acq load by (simp add: terminateWorkflow_def terminateWorkflow_open_def)
next
  let ?req = "\<lparr> SourceCluster = ClusterNameForFailoverVersion (clusterMetadata r) incomingVersion,
                 DomainUUID = Some domainID,
                 req_WorkflowExecution = \<lparr> WorkflowId = workflowID, RunId = runID \<rparr>,
                 FirstEventId = GetNextEventID msBuilder,
                 NextEventId = wrap64 (GetNextEventID msBuilder + 1),
                 req_Version = incomingVersion,
                 req_ReplicationInfo = [],
                 History =
                   [\<lparr> ev_EventId = GetNextEventID msBuilder,
                      ev_Timestamp = incomingTimestamp,
                      ev_Version = incomingVersion,
                      ev_EventType = EventTypeWorkflowExecutionTerminated,
                      WorkflowExecutionSignaledEventAttributes = None,
                      WorkflowExecutionTerminatedEventAttributes =
                        Some \<lparr> term_Reason = workflowTerminationReason,
                               term_Identity = workflowTerminationIdentity,
                               term_Details = None \<rparr> \<rparr>],
                 NewRunHistory = None,
                 EventStoreVersion = 0,
                 NewRunEventStoreVersion = 0,
                 ForceBufferEvents = False,
                 ResetWorkflow = False \<rparr>"
  assume run: "IsWorkflowExecutionRunning msBuilder"
  have "\<exists>res. ApplyReplicationTask_open (startWorkflowHandler n) r ctx msBuilder ?req w'' = Some res"
    by (rule ApplyReplicationTask_open_returns) simp
  then obtain err ms' wa
    where app: "ApplyReplicationTask n r ctx msBuilder ?req w'' = Some ((err, ms'), wa)"
    unfolding ApplyReplicationTask_def by (metis surj_pair)
  have "terminateWorkflow n r domainID workflowID runID incomingVersion incomingTimestamp w
          = Some (err, release (historyCache r) ctx err wa)"
    using acq load run app
    by (simp add: terminateWorkflow_def terminateWorkflow_open_def ApplyReplicationTask_def)
  with app show "\<exists>err ms' wa.
      ApplyReplicationTask n r ctx msBuilder ?req w'' = Some ((err, ms'), wa)
      \<and> terminateWorkflow n r domainID workflowID runID incomingVersion incomingTimestamp w
          = Some (err, release (historyCache r) ctx err wa)"
    by blast
qed


theorem terminateWorkflow_spec_witness:
  "terminateWorkflow 0 (sim (simStore ((simStateAt 10 5)\<lparr>IsWorkflowExecutionRunning := False\<rparr>)))
       ''domain'' ''wf'' ''run'' 20 777 []
     = Some (None, [Acquire ''domain'' \<lparr> WorkflowId = ''wf'', RunId = ''run'' \<rparr>,
                    Load \<lparr> WorkflowId = ''wf'', RunId = ''run'' \<rparr>,
                    Release \<lparr> WorkflowId = ''wf'', RunId = ''run'' \<rparr> None])
   \<and> terminateWorkflow 0 (sim (simStore (simStateAt 10 5))) ''domain'' ''wf'' ''run'' 20 777 []
     = Some (None, [Acquire ''domain'' \<lparr> WorkflowId = ''wf'', RunId = ''run'' \<rparr>,
                    Load \<lparr> WorkflowId = ''wf'', RunId = ''run'' \<rparr>,
                    NewUUID, ApplyEventIds [6], NextTransferTaskID,
                    ReplicateExecution \<lparr> WorkflowId = ''wf'', RunId = ''run'' \<rparr> 6,
                    CurrentTime ''active'' (- 299999999223),
                    NewTransferTasks ''active'' [],
                    NewTimers ''active'' (- 299999999223) [],
                    Release \<lparr> WorkflowId = ''wf'', RunId = ''run'' \<rparr> None])"
proof -
  let ?closed = "(simStateAt 10 5)\<lparr>IsWorkflowExecutionRunning := False\<rparr>"
  have a1: "getOrCreateWorkflowExecutionWithTimeout (historyCache (sim (simStore ?closed)))
              ''domain'' \<lparr> WorkflowId = ''wf'', RunId = ''run'' \<rparr> []
            = (Inr simCtx, [Acquire ''domain'' \<lparr> WorkflowId = ''wf'', RunId = ''run'' \<rparr>])"
    by (simp add: sim_defs)
  have l1: "loadWorkflowExecution (ctxOps (sim (simStore ?closed))) simCtx
              [Acquire ''domain'' \<lparr> WorkflowId = ''wf'', RunId = ''run'' \<rparr>]
            = (Inr ?closed, [Acquire ''domain'' \<lparr> WorkflowId = ''wf'', RunId = ''run'' \<rparr>,
                             Load \<lparr> WorkflowId = ''wf'', RunId = ''run'' \<rparr>])"
    by (simp add: sim_defs)
  have a2: "getOrCreateWorkflowExecutionWithTimeout (historyCache (sim (simStore (simStateAt 10 5))))
              ''domain'' \<lparr> WorkflowId = ''wf'', RunId = ''run'' \<rparr> []
            = (Inr simCtx, [Acquire ''domain'' \<lparr> WorkflowId = ''wf'', RunId = ''run'' \<rparr>])"
    by (simp add: sim_defs)
  have l2: "loadWorkflowExecution (ctxOps (sim (simStore (simStateAt 10 5)))) simCtx
              [Acquire ''domain'' \<lparr> WorkflowId = ''wf'', RunId = ''run'' \<rparr>]
            = (Inr (simStateAt 10 5),
               [Acquire ''domain'' \<lparr> WorkflowId = ''wf'', RunId = ''run'' \<rparr>,
                Load \<lparr> WorkflowId = ''wf'', RunId = ''run'' \<rparr>])"
    by (simp add: sim_defs)
  show ?thesis
    using terminateWorkflow_spec [OF a1 l1, of 0 20 777]
          terminateWorkflow_spec [OF a2 l2, of 0 20 777]
    by (simp add: ApplyReplicationTask_def ApplyReplicationTask_open_def notify_def sim_defs)
qed



text \<open>
  Claim C5, as amended. For a request on a loaded, running workflow whose schedule id
  is below the next event id and whose activity is still scheduled, the update is
  applied if and only if the stored tuple (version, attempt, last heartbeat) is
  lexicographically less than or equal to the tuple of the request: a request equal on
  all three is applied too. When it is applied, \<open>ReplicateActivityInfo\<close> gets the flag
  "the request's version is not from the cluster of the stored version, or the stored
  attempt is below the request's".
\<close>

theorem SyncActivity_spec:
  assumes acq: "getOrCreateWorkflowExecutionWithTimeout (historyCache r) (sa_DomainId request)
                  \<lparr> WorkflowId = sa_WorkflowId request, RunId = sa_RunId request \<rparr> w
                = (Inr ctx, w')"
    and load: "loadWorkflowExecution (ctxOps r) ctx w' = (Inr msBuilder, w'')"
    and running: "IsWorkflowExecutionRunning msBuilder"
    and below: "sa_ScheduledId request < GetNextEventID msBuilder"
    and scheduled: "GetActivityInfo msBuilder (sa_ScheduledId request) = Some ai"
  shows "SyncActivity r request w =
          (if lexLess3 (ai_Version ai, ai_Attempt ai, ai_LastHeartBeatUpdatedTime ai)
                (sa_Version request, sa_Attempt request, sa_LastHeartbeatTime request)
              \<or> (ai_Version ai, ai_Attempt ai, ai_LastHeartBeatUpdatedTime ai)
                  = (sa_Version request, sa_Attempt request, sa_LastHeartbeatTime request)
           then
             (case syncActivityUpdate r ctx msBuilder request
                     (\<not> IsVersionFromSameCluster (clusterMetadata r) (sa_Version request)
                           (ai_Version ai)
                      \<or> ai_Attempt ai < sa_Attempt request) w'' of
                (retError, wa) \<Rightarrow> (retError, release (historyCache r) ctx retError wa))
           else (None, release (historyCache r) ctx None w''))
     \<and> (\<forall>flag err ms'.
           ReplicateActivityInfo (msOps r) request flag msBuilder = (Some err, ms') \<longrightarrow>
           syncActivityUpdate r ctx msBuilder request flag w'' = (Some err, w''))"
  using assms
  by (auto simp add: SyncActivity_def syncActivityUpdate_def lexLess3_def Let_def
        split: prod.splits)

text \<open>
  Claim C5 as stated says that a request equal to the stored activity info on all three
  dimensions is a no-op. The stored info of activity 7 is (10, 0, 1000) and so is the
  request: the request does not exceed the stored tuple, yet the activity is updated
  and persisted, which a no-op run (acquire, load, release) does not do.
\<close>

theorem SyncActivity_equal_tuple_counterexample:
  "\<not> lexLess3 (10, 0, 1000) (10, 0, 1000)
   \<and> GetActivityInfo simActivity 7
       = Some \<lparr> ai_Version = 10, ai_Attempt = 0, ai_LastHeartBeatUpdatedTime = 1000,
                ai_TimerTaskStatus = 3 \<rparr>
   \<and> SyncActivity (sim (simStore simActivity)) (simSync 10 0 1000) []
       = (None, [Acquire ''domain'' \<lparr> WorkflowId = ''wf'', RunId = ''run'' \<rparr>,
                 Load \<lparr> WorkflowId = ''wf'', RunId = ''run'' \<rparr>,
                 NextTransferTaskID,
                 UpdateHelper \<lparr> WorkflowId = ''wf'', RunId = ''run'' \<rparr> 10 [] 1000 ''active'',
                 Release \<lparr> WorkflowId = ''wf'', RunId = ''run'' \<rparr> None])
   \<and> SyncActivity (sim (simStore simActivity)) (simSync 10 0 1000) []
       \<noteq> (None, [Acquire ''domain'' \<lparr> WorkflowId = ''wf'', RunId = ''run'' \<rparr>,
                 Load \<lparr> WorkflowId = ''wf'', RunId = ''run'' \<rparr>,
                 Release \<lparr> WorkflowId = ''wf'', RunId = ''run'' \<rparr> None])"
  by (simp add: lexLess3_def SyncActivity_def syncActivityUpdate_def
        updateMutableStateWithTimer_def Let_def sim_defs)

theorem SyncActivity_spec_witness:
  "SyncActivity (sim (simStore simActivity)) (simSync 10 0 999) []
     = (None, [Acquire ''domain'' \<lparr> WorkflowId = ''wf'', RunId = ''run'' \<rparr>,
               Load \<lparr> WorkflowId = ''wf'', RunId = ''run'' \<rparr>,
               Release \<lparr> WorkflowId = ''wf'', RunId = ''run'' \<rparr> None])
   \<and> SyncActivity (sim (simStore simActivity)) (simSync 10 1 1000) []
     = (None, [Acquire ''domain'' \<lparr> WorkflowId = ''wf'', RunId = ''run'' \<rparr>,
               Load \<lparr> WorkflowId = ''wf'', RunId = ''run'' \<rparr>,
               NextTransferTaskID,
               UpdateHelper \<lparr> WorkflowId = ''wf'', RunId = ''run'' \<rparr> 10 [] 1000 ''active'',
               Release \<lparr> WorkflowId = ''wf'', RunId = ''run'' \<rparr> None])
   \<and> map_option ai_TimerTaskStatus
        (GetActivityInfo
           (snd (ReplicateActivityInfo (msOps (sim (simStore simActivity))) (simSync 10 1 1000)
                   (\<not> IsVersionFromSameCluster (clusterMetadata (sim (simStore simActivity))) 10 10
                    \<or> 0 < (1::int)) simActivity)) 7)
     = Some 0"
proof -
  let ?ex = "\<lparr> WorkflowId = ''wf'', RunId = ''run'' \<rparr>"
  let ?ai = "\<lparr> ai_Version = 10, ai_Attempt = 0, ai_LastHeartBeatUpdatedTime = 1000,
               ai_TimerTaskStatus = 3 \<rparr>"
  have a: "getOrCreateWorkflowExecutionWithTimeout (historyCache (sim (simStore simActivity)))
             (sa_DomainId (simSync v at hb))
             \<lparr> WorkflowId = sa_WorkflowId (simSync v at hb), RunId = sa_RunId (simSync v at hb) \<rparr> []
           = (Inr simCtx, [Acquire ''domain'' ?ex])" for v at hb
    by (simp add: sim_defs)
  have l: "loadWorkflowExecution (ctxOps (sim (simStore simActivity))) simCtx
             [Acquire ''domain'' ?ex]
           = (Inr simActivity, [Acquire ''domain'' ?ex, Load ?ex])"
    by (simp add: sim_defs)
  have r: "IsWorkflowExecutionRunning simActivity" by (simp add: sim_defs)
  have b: "sa_ScheduledId (simSync v at hb) < GetNextEventID simActivity" for v at hb
    by (simp add: sim_defs)
  have s: "GetActivityInfo simActivity (sa_ScheduledId (simSync v at hb)) = Some ?ai" for v at hb
    by (simp add: sim_defs)
  show ?thesis
    using SyncActivity_spec [OF a l r b s, of 10 0 999, THEN conjunct1]
          SyncActivity_spec [OF a l r b s, of 10 1 1000, THEN conjunct1]
    by (simp add: lexLess3_def syncActivityUpdate_def updateMutableStateWithTimer_def sim_defs)
qed

lemma signalsLoop_filter:
  "signalsLoop ops events u msBuilder
     = signalsLoop ops
         (filter (\<lambda>event. ev_EventType event = EventTypeWorkflowExecutionSignaled) events)
         u msBuilder"
  by (induction events arbitrary: u msBuilder)
     (auto split: EventType.splits option.splits prod.splits)





lemma checkpointLoop_append:
  "checkpointLoop E (xs @ ys) acc = checkpointLoop E ys (checkpointLoop E xs acc)"
  by (induction E xs acc rule: checkpointLoop.induct) auto

lemma checkpointLoop_max:
  assumes "\<forall>(k, ri) \<in> set xs. ri_Version ri \<noteq> E"
    and "checkpointLoop E xs (v0, e0) = (v, e)"
  shows "(v0 = E \<longrightarrow>
            (xs = [] \<and> v = E \<and> e = e0)
          \<or> (xs \<noteq> [] \<and> (\<forall>(k, ri) \<in> set xs. ri_Version ri \<le> v)
               \<and> (\<exists>(k, ri) \<in> set xs. ri_Version ri = v \<and> ri_LastEventId ri = e)))
     \<and> (v0 \<noteq> E \<longrightarrow>
            v0 \<le> v \<and> (\<forall>(k, ri) \<in> set xs. ri_Version ri \<le> v)
          \<and> ((v = v0 \<and> e = e0)
               \<or> (\<exists>(k, ri) \<in> set xs. ri_Version ri = v \<and> ri_LastEventId ri = e)))"
  using assms
proof (induction xs arbitrary: v0 e0)
  case Nil
  then show ?case by simp
next
  case (Cons x xs)
  obtain k ri where x: "x = (k, ri)" by (cases x)
  have ne: "ri_Version ri \<noteq> E" using Cons.prems(1) x by simp
  have rest: "\<forall>(k, ri) \<in> set xs. ri_Version ri \<noteq> E" using Cons.prems(1) by simp
  show ?case
  proof (cases "v0 = E \<or> ri_Version ri > v0")
    case True
    then have "checkpointLoop E xs (ri_Version ri, ri_LastEventId ri) = (v, e)"
      using Cons.prems(2) x by simp
    from Cons.IH [OF rest this] ne True x show ?thesis by fastforce
  next
    case False
    then have "checkpointLoop E xs (v0, e0) = (v, e)"
      using Cons.prems(2) x by simp
    from Cons.IH [OF rest this] False x show ?thesis by fastforce
  qed
qed

text \<open>
  \<open>terminateWorkflow\<close>, the termination of the current run before a reset, and the reset
  itself return for every fuel: the batch they apply begins with the termination event.
\<close>

lemma terminateWorkflow_returns:
  "\<exists>res. terminateWorkflow n r domainID workflowID runID incomingVersion incomingTimestamp w = Some res"
proof -
  have "\<exists>res. ApplyReplicationTask_open h r ctx ms
          \<lparr> SourceCluster = a, DomainUUID = b, req_WorkflowExecution = c, FirstEventId = d,
            NextEventId = e, req_Version = f, req_ReplicationInfo = g,
            History = [\<lparr> ev_EventId = i, ev_Timestamp = j, ev_Version = k,
                         ev_EventType = EventTypeWorkflowExecutionTerminated,
                         WorkflowExecutionSignaledEventAttributes = l,
                         WorkflowExecutionTerminatedEventAttributes = m \<rparr>],
            NewRunHistory = o', EventStoreVersion = p, NewRunEventStoreVersion = q,
            ForceBufferEvents = s, ResetWorkflow = t \<rparr> w' = Some res"
    for h ctx ms a b c d e f g i j k l m o' p q s t w'
    by (rule ApplyReplicationTask_open_returns) simp
  then show ?thesis
    unfolding terminateWorkflow_def terminateWorkflow_open_def Let_def
    by (auto split: prod.splits sum.splits option.splits) (metis option.distinct(1))+
qed

lemma conflictResolution_returns:
  "\<exists>res. conflictResolutionTerminateCurrentRunningIfNotSelf n r msBuilder incomingVersion
            incomingTimestamp w = Some res"
  unfolding conflictResolutionTerminateCurrentRunningIfNotSelf_def Let_def
  by (auto split: prod.splits sum.splits option.splits)
     (metis terminateWorkflow_returns option.distinct(1))+

lemma resetTo_returns:
  "\<exists>res. resetTo n r ctx msBuilder lastEventID version timestamp w = Some res"
proof -
  obtain res where "conflictResolutionTerminateCurrentRunningIfNotSelf n r msBuilder version
      timestamp (IncCounter r ReplicateHistoryEventsScope HistoryConflictsCounter w) = Some res"
    using conflictResolution_returns [of n r msBuilder version timestamp
            "IncCounter r ReplicateHistoryEventsScope HistoryConflictsCounter w"]
    by auto
  then show ?thesis
    unfolding resetTo_def resetMutableState_def Let_def
    by (auto split: prod.splits sum.splits option.splits)
qed

text \<open>
  Claim C1. In the version check of a batch whose version is above the local last
  write version, when the cluster of the last write version is the current cluster: if
  the replication info of the request has no entry for that cluster, or an entry of
  strictly lower version than the last write version, then, the batch being non-empty
  and \<open>EmptyVersion\<close> being the version of no entry (it is the value that stands for
  "no version"), the check fails with \<open>ErrImpossibleLocalRemoteMissingReplicationInfo\<close>
  when both maps are empty, and otherwise resets the mutable state (the reset returns)
  to the event id of an entry of maximal version over the remote and the local map, with
  the incoming version and the timestamp of the last event of the batch. If the entry
  for the cluster has a strictly higher version than the last write version, the check
  fails with \<open>ErrImpossibleRemoteClaimSeenHigherVersion\<close>.
\<close>

theorem checkpoint_reset:
  assumes after: "LastWriteVersion (GetReplicationState msBuilder) < req_Version request"
    and prev: "ClusterNameForFailoverVersion (clusterMetadata r)
                 (LastWriteVersion (GetReplicationState msBuilder))
               = GetCurrentClusterName (clusterMetadata r)"
  shows "((map_of (req_ReplicationInfo request) (GetCurrentClusterName (clusterMetadata r)) = None
           \<or> (\<exists>ri. map_of (req_ReplicationInfo request) (GetCurrentClusterName (clusterMetadata r))
                      = Some ri
                    \<and> ri_Version ri < LastWriteVersion (GetReplicationState msBuilder)))
          \<and> (\<forall>(k, ri) \<in> set (req_ReplicationInfo request
                               @ LastReplicationInfo (GetReplicationState msBuilder)).
                 ri_Version ri \<noteq> EmptyVersion (cst r))
          \<and> History request \<noteq> [] \<longrightarrow>
          (req_ReplicationInfo request @ LastReplicationInfo (GetReplicationState msBuilder) = []
             \<longrightarrow> ApplyOtherEventsVersionChecking n r ctx msBuilder request inRetry w
                   = Some ((Inl ErrImpossibleLocalRemoteMissingReplicationInfo, msBuilder), w))
        \<and> (req_ReplicationInfo request @ LastReplicationInfo (GetReplicationState msBuilder) \<noteq> []
             \<longrightarrow> (\<exists>(k, ri) \<in> set (req_ReplicationInfo request
                                    @ LastReplicationInfo (GetReplicationState msBuilder)).
                     (\<forall>(k', ri') \<in> set (req_ReplicationInfo request
                                          @ LastReplicationInfo (GetReplicationState msBuilder)).
                         ri_Version ri' \<le> ri_Version ri)
                   \<and> ApplyOtherEventsVersionChecking n r ctx msBuilder request inRetry w
                       = resetTo n r ctx msBuilder (ri_LastEventId ri) (req_Version request)
                           (ev_Timestamp (last (History request))) w
                   \<and> resetTo n r ctx msBuilder (ri_LastEventId ri) (req_Version request)
                           (ev_Timestamp (last (History request))) w \<noteq> None)))
     \<and> ((\<exists>ri. map_of (req_ReplicationInfo request) (GetCurrentClusterName (clusterMetadata r))
                 = Some ri
               \<and> ri_Version ri > LastWriteVersion (GetReplicationState msBuilder)) \<longrightarrow>
          ApplyOtherEventsVersionChecking n r ctx msBuilder request inRetry w
            = Some ((Inl ErrImpossibleRemoteClaimSeenHigherVersion, msBuilder), w))"
proof (intro conjI impI)
  let ?all = "req_ReplicationInfo request @ LastReplicationInfo (GetReplicationState msBuilder)"
  let ?cp = "getLatestCheckpoint r (req_ReplicationInfo request)
               (LastReplicationInfo (GetReplicationState msBuilder))"
  assume h: "(map_of (req_ReplicationInfo request) (GetCurrentClusterName (clusterMetadata r)) = None
           \<or> (\<exists>ri. map_of (req_ReplicationInfo request) (GetCurrentClusterName (clusterMetadata r))
                      = Some ri
                    \<and> ri_Version ri < LastWriteVersion (GetReplicationState msBuilder)))
          \<and> (\<forall>(k, ri) \<in> set ?all. ri_Version ri \<noteq> EmptyVersion (cst r))
          \<and> History request \<noteq> []"
  have cp: "?cp = checkpointLoop (EmptyVersion (cst r)) ?all
                    (EmptyVersion (cst r), EmptyEventID (cst r))"
    by (simp add: getLatestCheckpoint_def checkpointLoop_append)
  have branch: "ApplyOtherEventsVersionChecking n r ctx msBuilder request inRetry w
      = (case ?cp of
           (lastValidVersion, lastValidEventID) \<Rightarrow>
             if lastValidVersion = EmptyVersion (cst r)
             then Some ((Inl ErrImpossibleLocalRemoteMissingReplicationInfo, msBuilder), w)
             else resetTo n r ctx msBuilder lastValidEventID (req_Version request)
                    (ev_Timestamp (last (History request))) w)"
    using after prev h
    by (auto simp add: ApplyOtherEventsVersionChecking_def Let_def split: prod.splits)
  {
    assume "?all = []"
    then show "ApplyOtherEventsVersionChecking n r ctx msBuilder request inRetry w
                   = Some ((Inl ErrImpossibleLocalRemoteMissingReplicationInfo, msBuilder), w)"
      using branch by (simp add: getLatestCheckpoint_def)
  }
  {
    assume ne: "?all \<noteq> []"
    obtain v e where ve: "?cp = (v, e)" by (cases ?cp)
    have real: "\<forall>(k, ri) \<in> set ?all. ri_Version ri \<noteq> EmptyVersion (cst r)"
      using h by simp
    from checkpointLoop_max [OF real ve [unfolded cp]] ne
    have mx: "(\<forall>(k, ri) \<in> set ?all. ri_Version ri \<le> v)"
      and ex: "\<exists>(k, ri) \<in> set ?all. ri_Version ri = v \<and> ri_LastEventId ri = e"
      by auto
    from ex obtain k ri where kri: "(k, ri) \<in> set ?all" "ri_Version ri = v" "ri_LastEventId ri = e"
      by auto
    have "v \<noteq> EmptyVersion (cst r)"
      using real kri by auto
    then have "ApplyOtherEventsVersionChecking n r ctx msBuilder request inRetry w
                 = resetTo n r ctx msBuilder (ri_LastEventId ri) (req_Version request)
                     (ev_Timestamp (last (History request))) w"
      using branch ve kri by simp
    moreover have "resetTo n r ctx msBuilder (ri_LastEventId ri) (req_Version request)
                     (ev_Timestamp (last (History request))) w \<noteq> None"
      using resetTo_returns [of n r ctx msBuilder "ri_LastEventId ri" "req_Version request"
              "ev_Timestamp (last (History request))" w] by auto
    ultimately show "\<exists>(k, ri) \<in> set ?all.
                     (\<forall>(k', ri') \<in> set ?all. ri_Version ri' \<le> ri_Version ri)
                   \<and> ApplyOtherEventsVersionChecking n r ctx msBuilder request inRetry w
                       = resetTo n r ctx msBuilder (ri_LastEventId ri) (req_Version request)
                           (ev_Timestamp (last (History request))) w
                   \<and> resetTo n r ctx msBuilder (ri_LastEventId ri) (req_Version request)
                           (ev_Timestamp (last (History request))) w \<noteq> None"
      using kri mx by (intro bexI [of _ "(k, ri)"]) auto
  }
next
  assume "\<exists>ri. map_of (req_ReplicationInfo request) (GetCurrentClusterName (clusterMetadata r))
                 = Some ri
               \<and> ri_Version ri > LastWriteVersion (GetReplicationState msBuilder)"
  then show "ApplyOtherEventsVersionChecking n r ctx msBuilder request inRetry w
            = Some ((Inl ErrImpossibleRemoteClaimSeenHigherVersion, msBuilder), w)"
    using after prev
    by (auto simp add: ApplyOtherEventsVersionChecking_def Let_def)
qed

text \<open>
  Claim C2, as amended. In the version check of a batch whose version is above the
  local last write version, when the cluster of the last write version is the current
  cluster and the remote entry for it has that same version: a remote last event id
  above the local last write event id fails with \<open>ErrCorruptedReplicationInfo\<close>.
  Otherwise \<open>flushEventsBuffer\<close> runs first. It does nothing unless the workflow is
  running, has buffered events and can be modified; then it fails with
  \<open>ErrCorruptedMutableStateDecision\<close> when there is no in-flight decision, and else adds
  the \<open>DecisionTaskFailed\<close> event with cause failover-close-decision for the in-flight
  decision and persists the state. An error of the flush is the result of the check
  (no reset). After a flush without error, the state is reset to the remote last event
  id with the incoming version and timestamp if that id is below the last write event
  id of the flushed state or the flushed state has buffered events, and the batch is
  accepted without reset otherwise; in particular it is accepted when the ids are equal
  and there is no buffered event.
\<close>

theorem flush_then_reset:
  assumes after: "LastWriteVersion (GetReplicationState msBuilder) < req_Version request"
    and prev: "ClusterNameForFailoverVersion (clusterMetadata r)
                 (LastWriteVersion (GetReplicationState msBuilder))
               = GetCurrentClusterName (clusterMetadata r)"
    and remote: "map_of (req_ReplicationInfo request) (GetCurrentClusterName (clusterMetadata r))
                 = Some ri"
    and same: "ri_Version ri = LastWriteVersion (GetReplicationState msBuilder)"
  shows "(ri_LastEventId ri > LastWriteEventID (GetReplicationState msBuilder) \<longrightarrow>
            ApplyOtherEventsVersionChecking n r ctx msBuilder request inRetry w
              = Some ((Inl ErrCorruptedReplicationInfo, msBuilder), w))
     \<and> (ri_LastEventId ri \<le> LastWriteEventID (GetReplicationState msBuilder) \<longrightarrow>
          (\<forall>err ms' w'. flushEventsBuffer r ctx msBuilder w = ((Some err, ms'), w') \<longrightarrow>
             ApplyOtherEventsVersionChecking n r ctx msBuilder request inRetry w
               = Some ((Inl err, ms'), w'))
        \<and> (\<forall>ms' w'. flushEventsBuffer r ctx msBuilder w = ((None, ms'), w') \<longrightarrow>
             (ri_LastEventId ri < LastWriteEventID (GetReplicationState ms')
                \<or> HasBufferedEvents ms') \<longrightarrow> History request \<noteq> [] \<longrightarrow>
             ApplyOtherEventsVersionChecking n r ctx msBuilder request inRetry w
               = resetTo n r ctx ms' (ri_LastEventId ri) (req_Version request)
                   (ev_Timestamp (last (History request))) w')
        \<and> (\<forall>ms' w'. flushEventsBuffer r ctx msBuilder w = ((None, ms'), w') \<longrightarrow>
             \<not> (ri_LastEventId ri < LastWriteEventID (GetReplicationState ms')
                  \<or> HasBufferedEvents ms') \<longrightarrow>
             ApplyOtherEventsVersionChecking n r ctx msBuilder request inRetry w
               = Some ((Inr (Some ms'), ms'), w')))
     \<and> (IsWorkflowExecutionRunning msBuilder \<and> HasBufferedEvents msBuilder
          \<and> canModifyWorkflow r msBuilder \<longrightarrow>
          flushEventsBuffer r ctx msBuilder w
            = (case GetInFlightDecisionTask msBuilder of
                 None \<Rightarrow> ((Some ErrCorruptedMutableStateDecision, msBuilder), w)
               | Some di \<Rightarrow>
                   (case GetNextTransferTaskID (shard r) w of
                      (Inl err, w') \<Rightarrow>
                        ((Some err,
                          AddDecisionTaskFailedEvent (msOps r) (di_ScheduleID di) (di_StartedID di)
                            DecisionTaskFailedCauseFailoverCloseDecision
                            (identityHistoryService (cst r))
                            (UpdateReplicationStateVersion (msOps r)
                               (GetLastWriteVersion msBuilder) True msBuilder)), w')
                    | (Inr transactionID, w') \<Rightarrow>
                        updateWorkflowExecution (ctxOps r) ctx
                          (AddDecisionTaskFailedEvent (msOps r) (di_ScheduleID di)
                             (di_StartedID di) DecisionTaskFailedCauseFailoverCloseDecision
                             (identityHistoryService (cst r))
                             (UpdateReplicationStateVersion (msOps r)
                                (GetLastWriteVersion msBuilder) True msBuilder))
                          transactionID w')))
     \<and> (\<not> (IsWorkflowExecutionRunning msBuilder \<and> HasBufferedEvents msBuilder
             \<and> canModifyWorkflow r msBuilder) \<longrightarrow>
          flushEventsBuffer r ctx msBuilder w = ((None, msBuilder), w))
     \<and> (ri_LastEventId ri = LastWriteEventID (GetReplicationState msBuilder)
          \<and> \<not> HasBufferedEvents msBuilder \<longrightarrow>
          ApplyOtherEventsVersionChecking n r ctx msBuilder request inRetry w
            = Some ((Inr (Some msBuilder), msBuilder), w))"
proof -
  have flush_noop: "flushEventsBuffer r ctx msBuilder w = ((None, msBuilder), w)"
    if "\<not> (IsWorkflowExecutionRunning msBuilder \<and> HasBufferedEvents msBuilder
             \<and> canModifyWorkflow r msBuilder)"
    using that by (auto simp add: flushEventsBuffer_def)
  have flush_do: "flushEventsBuffer r ctx msBuilder w
            = (case GetInFlightDecisionTask msBuilder of
                 None \<Rightarrow> ((Some ErrCorruptedMutableStateDecision, msBuilder), w)
               | Some di \<Rightarrow>
                   (case GetNextTransferTaskID (shard r) w of
                      (Inl err, w') \<Rightarrow>
                        ((Some err,
                          AddDecisionTaskFailedEvent (msOps r) (di_ScheduleID di) (di_StartedID di)
                            DecisionTaskFailedCauseFailoverCloseDecision
                            (identityHistoryService (cst r))
                            (UpdateReplicationStateVersion (msOps r)
                               (GetLastWriteVersion msBuilder) True msBuilder)), w')
                    | (Inr transactionID, w') \<Rightarrow>
                        updateWorkflowExecution (ctxOps r) ctx
                          (AddDecisionTaskFailedEvent (msOps r) (di_ScheduleID di)
                             (di_StartedID di) DecisionTaskFailedCauseFailoverCloseDecision
                             (identityHistoryService (cst r))
                             (UpdateReplicationStateVersion (msOps r)
                                (GetLastWriteVersion msBuilder) True msBuilder))
                          transactionID w'))"
    if "IsWorkflowExecutionRunning msBuilder \<and> HasBufferedEvents msBuilder
          \<and> canModifyWorkflow r msBuilder"
    using that
    by (auto simp add: flushEventsBuffer_def Let_def split: option.splits prod.splits sum.splits)
  have main: "ApplyOtherEventsVersionChecking n r ctx msBuilder request inRetry w
      = (if ri_LastEventId ri > LastWriteEventID (GetReplicationState msBuilder)
         then Some ((Inl ErrCorruptedReplicationInfo, msBuilder), w)
         else
           (case flushEventsBuffer r ctx msBuilder w of
              ((Some err, ms1), w1) \<Rightarrow> Some ((Inl err, ms1), w1)
            | ((None, ms1), w1) \<Rightarrow>
                if ri_LastEventId ri < LastWriteEventID (GetReplicationState ms1)
                   \<or> HasBufferedEvents ms1
                then
                  (if History request = []
                   then Some ((Inl (Panic ''index out of range''), ms1), w1)
                   else resetTo n r ctx ms1 (ri_LastEventId ri) (req_Version request)
                          (ev_Timestamp (last (History request))) w1)
                else Some ((Inr (Some ms1), ms1), w1)))"
    using after prev remote same
    by (auto simp add: ApplyOtherEventsVersionChecking_def Let_def
          split: prod.splits option.splits)
  show ?thesis
    using flush_noop flush_do
    by (auto simp add: main)
qed

theorem checkpoint_reset_witness:
  "checked (ApplyOtherEventsVersionChecking 0 (sim (simStore (simStateAt 10 5))) simCtx
              (simStateAt 10 5) (simRequest 11 6 [otherEvent 6]) False [])
     = Some (Inl ErrImpossibleLocalRemoteMissingReplicationInfo, [])
   \<and> checked (ApplyOtherEventsVersionChecking 0 (sim (simStore (simStateAt 10 5))) simCtx
                ((simStateAt 10 5)\<lparr>GetReplicationState :=
                   (GetReplicationState (simStateAt 10 5))\<lparr>LastReplicationInfo :=
                      [(''standby'', simInfo 1 2)]\<rparr>\<rparr>)
                ((simRequest 11 6 [otherEvent 6])\<lparr>req_ReplicationInfo :=
                   [(''standby'', simInfo 11 4), (''active'', simInfo 0 3)]\<rparr>) False [])
     = Some (Inr (Some 5), [Counter HistoryConflictsCounter, NewUUID, Reset ''run'' 4])
   \<and> checked (ApplyOtherEventsVersionChecking 0 (sim (simStore (simStateAt 10 5))) simCtx
                (simStateAt 10 5)
                ((simRequest 11 6 [otherEvent 6])\<lparr>req_ReplicationInfo :=
                   [(''active'', simInfo 20 3)]\<rparr>) False [])
     = Some (Inl ErrImpossibleRemoteClaimSeenHigherVersion, [])"
proof -
  let ?r = "sim (simStore (simStateAt 10 5))"
  let ?ms2 = "(simStateAt 10 5)\<lparr>GetReplicationState :=
                   (GetReplicationState (simStateAt 10 5))\<lparr>LastReplicationInfo :=
                      [(''standby'', simInfo 1 2)]\<rparr>\<rparr>"
  let ?req2 = "(simRequest 11 6 [otherEvent 6])\<lparr>req_ReplicationInfo :=
                   [(''standby'', simInfo 11 4), (''active'', simInfo 0 3)]\<rparr>"
  let ?req3 = "(simRequest 11 6 [otherEvent 6])\<lparr>req_ReplicationInfo :=
                   [(''active'', simInfo 20 3)]\<rparr>"
  have a1: "LastWriteVersion (GetReplicationState (simStateAt 10 5))
              < req_Version (simRequest 11 6 [otherEvent 6])"
    by (simp add: sim_defs)
  have p1: "ClusterNameForFailoverVersion (clusterMetadata ?r)
              (LastWriteVersion (GetReplicationState (simStateAt 10 5)))
            = GetCurrentClusterName (clusterMetadata ?r)"
    by (simp add: sim_defs)
  have a2: "LastWriteVersion (GetReplicationState ?ms2) < req_Version ?req2"
    by (simp add: sim_defs)
  have p2: "ClusterNameForFailoverVersion (clusterMetadata ?r)
              (LastWriteVersion (GetReplicationState ?ms2))
            = GetCurrentClusterName (clusterMetadata ?r)"
    by (simp add: sim_defs)
  have a3: "LastWriteVersion (GetReplicationState (simStateAt 10 5)) < req_Version ?req3"
    by (simp add: sim_defs)
  show ?thesis
    using checkpoint_reset [OF a1 p1, where n = 0 and ctx = simCtx and inRetry = False
            and w = "[]", THEN conjunct1]
          checkpoint_reset [OF a2 p2, where n = 0 and ctx = simCtx and inRetry = False
            and w = "[]", THEN conjunct1]
          checkpoint_reset [OF a3 p1, where n = 0 and ctx = simCtx and inRetry = False
            and w = "[]", THEN conjunct2]
    by (simp add: checked_def resetTo_def resetMutableState_def
          conflictResolutionTerminateCurrentRunningIfNotSelf_def Let_def sim_defs)
qed

text \<open>
  Claim C2 as stated says that a mutable state with buffered events is flushed and
  then reset. Here the remote entry has the local last write version and event id, the
  workflow is running with buffered events, and there is no in-flight decision: the
  check fails with \<open>ErrCorruptedMutableStateDecision\<close> and nothing is reset, whereas the
  reset to the remote event id would have returned a rebuilt state.
\<close>

theorem flush_then_reset_counterexample:
  "LastWriteVersion (GetReplicationState ((simStateAt 10 5)\<lparr>HasBufferedEvents := True\<rparr>))
     < req_Version ((simRequest 11 6 [otherEvent 6])\<lparr>req_ReplicationInfo :=
                      [(''active'', simInfo 10 5)]\<rparr>)
   \<and> HasBufferedEvents ((simStateAt 10 5)\<lparr>HasBufferedEvents := True\<rparr>)
   \<and> ApplyOtherEventsVersionChecking 0 (sim (simStore (simStateAt 10 5))) simCtx
         ((simStateAt 10 5)\<lparr>HasBufferedEvents := True\<rparr>)
         ((simRequest 11 6 [otherEvent 6])\<lparr>req_ReplicationInfo := [(''active'', simInfo 10 5)]\<rparr>)
         False []
       = Some ((Inl ErrCorruptedMutableStateDecision,
                (simStateAt 10 5)\<lparr>HasBufferedEvents := True\<rparr>), [])
   \<and> checked (resetTo 0 (sim (simStore (simStateAt 10 5))) simCtx
                ((simStateAt 10 5)\<lparr>HasBufferedEvents := True\<rparr>) 5 11 0 [])
       = Some (Inr (Some 6), [Counter HistoryConflictsCounter, NewUUID, Reset ''run'' 5])"
  by (simp add: ApplyOtherEventsVersionChecking_def flushEventsBuffer_def canModifyWorkflow_def
        checked_def resetTo_def resetMutableState_def
        conflictResolutionTerminateCurrentRunningIfNotSelf_def Let_def sim_defs)

theorem flush_then_reset_witness:
  "checked (ApplyOtherEventsVersionChecking 0 (sim (simStore (simStateAt 10 5))) simCtx
              (simStateAt 10 5)
              ((simRequest 11 6 [otherEvent 6])\<lparr>req_ReplicationInfo := [(''active'', simInfo 10 7)]\<rparr>)
              False [])
     = Some (Inl ErrCorruptedReplicationInfo, [])
   \<and> checked (ApplyOtherEventsVersionChecking 0 (sim (simStore (simStateAt 10 5))) simCtx
                ((simStateAt 10 5)\<lparr>HasBufferedEvents := True,
                                   GetInFlightDecisionTask := Some simDecision\<rparr>)
                ((simRequest 11 6 [otherEvent 6])\<lparr>req_ReplicationInfo :=
                   [(''active'', simInfo 10 5)]\<rparr>) False [])
     = Some (Inr (Some 6),
             [NextTransferTaskID, UpdateExecution \<lparr> WorkflowId = ''wf'', RunId = ''run'' \<rparr> 7,
              Counter HistoryConflictsCounter, NewUUID, Reset ''run'' 5])
   \<and> checked (ApplyOtherEventsVersionChecking 0 (sim (simStore (simStateAt 10 5))) simCtx
                (simStateAt 10 5)
                ((simRequest 11 6 [otherEvent 6])\<lparr>req_ReplicationInfo :=
                   [(''active'', simInfo 10 3)]\<rparr>) False [])
     = Some (Inr (Some 4), [Counter HistoryConflictsCounter, NewUUID, Reset ''run'' 3])
   \<and> checked (ApplyOtherEventsVersionChecking 0 (sim (simStore (simStateAt 10 5))) simCtx
                (simStateAt 10 5)
                ((simRequest 11 6 [otherEvent 6])\<lparr>req_ReplicationInfo :=
                   [(''active'', simInfo 10 5)]\<rparr>) False [])
     = Some (Inr (Some 6), [])"
proof -
  let ?r = "sim (simStore (simStateAt 10 5))"
  let ?buf = "(simStateAt 10 5)\<lparr>HasBufferedEvents := True,
                                   GetInFlightDecisionTask := Some simDecision\<rparr>"
  let ?req = "\<lambda>e. (simRequest 11 6 [otherEvent 6])\<lparr>req_ReplicationInfo :=
                   [(''active'', simInfo 10 e)]\<rparr>"
  have a: "LastWriteVersion (GetReplicationState (simStateAt 10 5)) < req_Version (?req e)" for e
    by (simp add: sim_defs)
  have p: "ClusterNameForFailoverVersion (clusterMetadata ?r)
              (LastWriteVersion (GetReplicationState (simStateAt 10 5)))
            = GetCurrentClusterName (clusterMetadata ?r)"
    by (simp add: sim_defs)
  have m: "map_of (req_ReplicationInfo (?req e)) (GetCurrentClusterName (clusterMetadata ?r))
            = Some (simInfo 10 e)" for e
    by (simp add: sim_defs)
  have s: "ri_Version (simInfo 10 e) = LastWriteVersion (GetReplicationState (simStateAt 10 5))"
    for e
    by (simp add: sim_defs)
  have a': "LastWriteVersion (GetReplicationState ?buf) < req_Version (?req e)" for e
    by (simp add: sim_defs)
  have p': "ClusterNameForFailoverVersion (clusterMetadata ?r)
              (LastWriteVersion (GetReplicationState ?buf))
            = GetCurrentClusterName (clusterMetadata ?r)"
    by (simp add: sim_defs)
  have s': "ri_Version (simInfo 10 e) = LastWriteVersion (GetReplicationState ?buf)" for e
    by (simp add: sim_defs)
  show ?thesis
    using flush_then_reset [OF a [of 7] p m [of 7] s [of 7], where n = 0 and ctx = simCtx
            and inRetry = False and w = "[]", THEN conjunct1]
          flush_then_reset [OF a' [of 5] p' m [of 5] s' [of 5], where n = 0 and ctx = simCtx
            and inRetry = False and w = "[]", THEN conjunct2, THEN conjunct1]
          flush_then_reset [OF a [of 3] p m [of 3] s [of 3], where n = 0 and ctx = simCtx
            and inRetry = False and w = "[]", THEN conjunct2, THEN conjunct1]
          flush_then_reset [OF a [of 5] p m [of 5] s [of 5], where n = 0 and ctx = simCtx
            and inRetry = False and w = "[]", THEN conjunct2, THEN conjunct2,
            THEN conjunct2, THEN conjunct2]
    by (simp add: checked_def flushEventsBuffer_def canModifyWorkflow_def resetTo_def
          resetMutableState_def conflictResolutionTerminateCurrentRunningIfNotSelf_def Let_def
          sim_defs)
qed




subsection \<open>The entry point \<open>ApplyEvents\<close>\<close>

text \<open>
  An empty batch is dropped. For a batch that does not begin with the start event and
  whose mutable state exists, \<open>ApplyEvents\<close> flushes the buffer, checks the version and,
  when the check returns a mutable state, goes on with \<open>ApplyOtherEvents\<close>; when the
  check returns none, \<open>ApplyEvents\<close> returns success.
\<close>

lemma ApplyEvents_empty:
  "History request = []
   \<Longrightarrow> ApplyEvents n r request inRetry w
       = Some (None, IncCounter r ReplicateHistoryEventsScope EmptyReplicationEventsCounter
                       (RecordTimer r ReplicateHistoryEventsScope ReplicationEventsSizeTimer 0 w))"
  by (simp add: ApplyEvents_def)

lemma ApplyEvents_version_check_drops:
  assumes "History request \<noteq> []"
    and "ev_EventType (hd (History request)) \<noteq> EventTypeWorkflowExecutionStarted"
    and "validateDomainUUID r (DomainUUID request) = Inr domainID"
    and "getOrCreateWorkflowExecutionWithTimeout (historyCache r) domainID
           (req_WorkflowExecution request)
           (RecordTimer r ReplicateHistoryEventsScope ReplicationEventsSizeTimer
              (int (length (History request))) w) = (Inr ctx, wa)"
    and "loadWorkflowExecution (ctxOps r) ctx wa = (Inr msBuilder, wb)"
    and "flushReplicationBuffer n r ctx msBuilder wb = Some ((None, msa), wc)"
    and "ApplyOtherEventsVersionChecking n r ctx msa request inRetry wc
           = Some ((Inr None, msb), wd)"
  shows "ApplyEvents n r request inRetry w = Some (None, release (historyCache r) ctx None wd)"
  using assms by (simp add: ApplyEvents_def applyEventsSwitch_def Let_def)

lemma ApplyEvents_version_check_passes:
  assumes "History request \<noteq> []"
    and "ev_EventType (hd (History request)) \<noteq> EventTypeWorkflowExecutionStarted"
    and "validateDomainUUID r (DomainUUID request) = Inr domainID"
    and "getOrCreateWorkflowExecutionWithTimeout (historyCache r) domainID
           (req_WorkflowExecution request)
           (RecordTimer r ReplicateHistoryEventsScope ReplicationEventsSizeTimer
              (int (length (History request))) w) = (Inr ctx, wa)"
    and "loadWorkflowExecution (ctxOps r) ctx wa = (Inr msBuilder, wb)"
    and "flushReplicationBuffer n r ctx msBuilder wb = Some ((None, msa), wc)"
    and "ApplyOtherEventsVersionChecking n r ctx msa request inRetry wc
           = Some ((Inr (Some msc), msb), wd)"
    and "ApplyOtherEvents n r ctx msc request wd = Some ((err, msd), we)"
  shows "ApplyEvents n r request inRetry w
           = Some (map_option translateError err, release (historyCache r) ctx err we)"
  using assms by (simp add: ApplyEvents_def applyEventsSwitch_def Let_def)

end
